theory Spec2Isabelle
  imports Complex_Main
begin

section \<open>Ray data structures of \<^verbatim>\<open>mattport/structures/rays.py\<close>\<close>

text \<open>
  The module holds four dataclasses over torch tensors: \<^verbatim>\<open>PointSamples\<close>,
  \<^verbatim>\<open>RaySamples\<close>, \<^verbatim>\<open>RayBundle\<close> and \<^verbatim>\<open>CameraRayBundle\<close>. The embedding
  below follows, line by line, the methods \<^verbatim>\<open>get_weights\<close>, \<^verbatim>\<open>sample\<close>,
  \<^verbatim>\<open>get_masked_ray_bundle\<close>, \<^verbatim>\<open>get_ray_samples\<close>, \<^verbatim>\<open>to_camera_ray_bundle\<close>,
  \<^verbatim>\<open>set_camera_indices\<close>, \<^verbatim>\<open>get_num_rays\<close> and \<^verbatim>\<open>to_ray_bundle\<close>.

  Representation of tensors.
  \<^item> A tensor is the nested list that \<^verbatim>\<open>tolist()\<close> would print: a tensor of shape
    \<open>N \<times> S\<close> is a list of \<open>N\<close> rows of length \<open>S\<close>. A tensor with no rows is \<open>[]\<close>,
    whatever its trailing sizes are: where such a size is read from a tensor that may
    have no rows (\<^verbatim>\<open>positions.shape[1]\<close>) the model reads \<open>0\<close>, and two tensors
    with no rows always broadcast. Every property below is stated for arguments whose
    numbers of rows agree, where this makes no difference.
  \<^item> The trailing axis of static size 3 (\<^verbatim>\<open>TensorType[..., 3]\<close>) is a triple.
  \<^item> The argument and the result of \<^verbatim>\<open>get_weights\<close> and the field \<^verbatim>\<open>deltas\<close> it
    reads are declared with any number of leading axes
    (\<^verbatim>\<open>TensorType[..., "num_samples"]\<close>); such a tensor is its leading shape together
    with its rows along the last axis (type \<open>tensor\<close> below).
  \<^item> The two tensors of a \<^verbatim>\<open>CameraRayBundle\<close> that \<^verbatim>\<open>view(-1, 3)\<close> is taken of carry
    their strides (type \<open>grid\<close> below), since whether torch can merge two axes
    without copying depends on them. No other operation of the module depends on
    strides, and no other tensor carries them.
  \<^item> Floating-point entries are real numbers: arithmetic is exact, so rounding and
    the order in which a sum is accumulated are not modelled.
  \<^item> Entries of a \<^verbatim>\<open>long\<close> tensor are integers; where the code computes one from
    a Python \<^verbatim>\<open>int\<close> (\<^verbatim>\<open>set_camera_indices\<close>) the 64-bit wrap-around is written out.
    Boolean entries are \<open>bool\<close>.
  \<^item> Devices are not modelled: \<^verbatim>\<open>.to(device)\<close> is the identity.
  \<^item> A field whose value is \<^verbatim>\<open>None\<close> is \<open>None\<close> of an option type.
  Every exception the code can raise is a value \<open>Inl e\<close> of the result.
\<close>

subsection \<open>Errors\<close>

datatype error =
    AssertionError    \<comment> \<open>a failed \<^verbatim>\<open>assert\<close>\<close>
  | ValueError        \<comment> \<open>\<^verbatim>\<open>random.sample\<close>: sample larger than population or negative\<close>
  | TypeError         \<comment> \<open>subscripting or multiplying \<^verbatim>\<open>None\<close>\<close>
  | IndexError        \<comment> \<open>an index out of range, a mask of the wrong shape\<close>
  | RuntimeError      \<comment> \<open>torch: shapes that do not broadcast or concatenate, an invalid \<^verbatim>\<open>view\<close>\<close>
  | OverflowError     \<comment> \<open>a Python \<^verbatim>\<open>int\<close> that fits neither \<^verbatim>\<open>int64\<close> nor \<^verbatim>\<open>uint64\<close>\<close>

definition and_then :: "error + 'a \<Rightarrow> ('a \<Rightarrow> error + 'b) \<Rightarrow> error + 'b" where
  "and_then m f = (case m of Inl e \<Rightarrow> Inl e | Inr v \<Rightarrow> f v)"

fun collect :: "(error + 'a) list \<Rightarrow> error + 'a list" where
  "collect [] = Inr []"
| "collect (x # xs) = and_then x (\<lambda>v. and_then (collect xs) (\<lambda>vs. Inr (v # vs)))"

subsection \<open>Tensor operations used by the module\<close>

type_synonym vec3 = "real \<times> real \<times> real"

fun vadd :: "vec3 \<Rightarrow> vec3 \<Rightarrow> vec3" where
  "vadd (a, b, c) (x, y, z) = (a + x, b + y, c + z)"

fun vscale :: "real \<Rightarrow> vec3 \<Rightarrow> vec3" where
  "vscale t (x, y, z) = (t * x, t * y, t * z)"

text \<open>\<^verbatim>\<open>torch.norm(v, dim=-1)\<close>: the Euclidean norm along the last axis.\<close>

fun norm3 :: "vec3 \<Rightarrow> real" where
  "norm3 (x, y, z) = sqrt (x * x + y * y + z * z)"

text \<open>
  Broadcasting of one axis: two sizes are compatible when they are equal or one of
  them is 1, and the axis of size 1 is repeated. Anything else is torch's
  \<^verbatim>\<open>RuntimeError\<close>.
\<close>

definition broadcast :: "'a list \<Rightarrow> 'b list \<Rightarrow> error + ('a \<times> 'b) list" where
  "broadcast xs ys =
     (if length xs = length ys then Inr (zip xs ys)
      else if length xs = 1 then Inr (map (\<lambda>y. (hd xs, y)) ys)
      else if length ys = 1 then Inr (map (\<lambda>x. (x, hd ys)) xs)
      else Inl RuntimeError)"

text \<open>Elementwise product along one axis.\<close>

definition mul1 :: "real list \<Rightarrow> real list \<Rightarrow> error + real list" where
  "mul1 xs ys = and_then (broadcast xs ys) (\<lambda>ps. Inr (map (\<lambda>(x, y). x * y) ps))"

text \<open>
  A tensor with any number of leading axes: \<open>leading\<close> is the shape without its last
  axis and \<open>rows\<close> lists, in row-major order of the leading axes, the vectors along
  the last axis. A tensor of shape \<open>(S)\<close> has \<open>leading = []\<close> and one row; a tensor of
  shape \<open>(N, S)\<close> has \<open>leading = [N]\<close> and \<open>N\<close> rows; a tensor of shape \<open>(B, N, S)\<close> has
  \<open>leading = [B, N]\<close> and \<open>B * N\<close> rows. It always has as many rows as the product of
  its leading shape.
\<close>

record 'a tensor =
  leading :: "nat list"
  rows :: "'a list list"

definition of_rows :: "'a list list \<Rightarrow> 'a tensor" where
  "of_rows r = \<lparr>leading = [length r], rows = r\<rparr>"

text \<open>
  Broadcasting of the leading axes. Shapes are aligned at the right; \<open>bdims\<close> works on
  the reversed shapes. \<open>indices L\<close> lists the multi-indices of shape \<open>L\<close> in row-major
  order, and \<open>offset L idx\<close> is the number of the row of a tensor with leading shape
  \<open>L\<close> that the multi-index \<open>idx\<close> of the broadcast shape reads: axes of size 1 are read
  at 0 and missing leading axes are skipped.
\<close>

fun bdims :: "nat list \<Rightarrow> nat list \<Rightarrow> nat list option" where
  "bdims [] ys = Some ys"
| "bdims xs [] = Some xs"
| "bdims (x # xs) (y # ys) =
     (if x = y \<or> y = 1 then map_option (\<lambda>ds. x # ds) (bdims xs ys)
      else if x = 1 then map_option (\<lambda>ds. y # ds) (bdims xs ys)
      else None)"

definition broadcast_shape :: "nat list \<Rightarrow> nat list \<Rightarrow> nat list option" where
  "broadcast_shape xs ys = map_option rev (bdims (rev xs) (rev ys))"

fun indices :: "nat list \<Rightarrow> nat list list" where
  "indices [] = [[]]"
| "indices (d # ds) = concat (map (\<lambda>i. map (\<lambda>idx. i # idx) (indices ds)) [0..<d])"

definition offset :: "nat list \<Rightarrow> nat list \<Rightarrow> nat" where
  "offset L idx =
     foldl (\<lambda>acc (d, i). acc * d + (if d = 1 then 0 else i)) 0
       (zip L (drop (length idx - length L) idx))"

text \<open>The elementwise product \<^verbatim>\<open>a * b\<close> of two tensors, with broadcasting.\<close>

definition tmul :: "real tensor \<Rightarrow> real tensor \<Rightarrow> error + real tensor" where
  "tmul a b =
     (case broadcast_shape (leading a) (leading b) of
        None \<Rightarrow> Inl RuntimeError
      | Some L \<Rightarrow>
          and_then
            (collect (map (\<lambda>idx. mul1 (rows a ! offset (leading a) idx)
                                     (rows b ! offset (leading b) idx)) (indices L)))
            (\<lambda>rs. Inr \<lparr>leading = L, rows = rs\<rparr>))"

text \<open>An elementwise function (\<^verbatim>\<open>torch.exp\<close>, \<^verbatim>\<open>1 - x\<close>, \<^verbatim>\<open>-x\<close>).\<close>

definition tmap :: "('a \<Rightarrow> 'b) \<Rightarrow> 'a tensor \<Rightarrow> 'b tensor" where
  "tmap f t = \<lparr>leading = leading t, rows = map (map f) (rows t)\<rparr>"

text \<open>
  \<^verbatim>\<open>x[..., 0]\<close> on a tensor whose entries are the vectors of a further, trailing axis
  (the channel axis of \<^verbatim>\<open>densities\<close>): entry 0 of that axis; \<^verbatim>\<open>IndexError\<close> when the
  axis is empty.
\<close>

definition select0 :: "'a list tensor \<Rightarrow> error + 'a tensor" where
  "select0 x =
     (if \<exists>row \<in> set (rows x). \<exists>c \<in> set row. c = [] then Inl IndexError
      else Inr (tmap hd x))"

text \<open>\<^verbatim>\<open>x[..., :-1]\<close>: every row without its last entry.\<close>

definition drop_last :: "'a tensor \<Rightarrow> 'a tensor" where
  "drop_last t = \<lparr>leading = leading t, rows = map butlast (rows t)\<rparr>"

text \<open>\<^verbatim>\<open>torch.cumsum(x, dim=-1)\<close>: entry \<open>i\<close> of a row is the sum of its entries \<open>0..i\<close>.\<close>

fun cumsum_from :: "real \<Rightarrow> real list \<Rightarrow> real list" where
  "cumsum_from acc [] = []"
| "cumsum_from acc (x # xs) = (acc + x) # cumsum_from (acc + x) xs"

definition cumsum :: "real tensor \<Rightarrow> real tensor" where
  "cumsum t = \<lparr>leading = leading t, rows = map (cumsum_from 0) (rows t)\<rparr>"

text \<open>\<^verbatim>\<open>x.shape[0]\<close>: the first leading axis, or the length of the one row.\<close>

definition dim0 :: "'a tensor \<Rightarrow> nat" where
  "dim0 t =
     (case leading t of
        n # _ \<Rightarrow> n
      | [] \<Rightarrow> (case rows t of [] \<Rightarrow> 0 | v # _ \<Rightarrow> length v))"

text \<open>\<^verbatim>\<open>torch.zeros((n, 1))\<close>.\<close>

definition zeros :: "nat \<Rightarrow> real tensor" where
  "zeros n = \<lparr>leading = [n], rows = replicate n [0]\<rparr>"

text \<open>
  \<^verbatim>\<open>torch.cat([a, b], axis=-1)\<close>. A tensor of shape \<open>(0)\<close> is skipped (torch keeps this
  for legacy code). Otherwise the two tensors must have the same number of axes and
  agree on every axis but the last, or torch raises \<^verbatim>\<open>RuntimeError\<close>.
\<close>

definition is_legacy_empty :: "'a tensor \<Rightarrow> bool" where
  "is_legacy_empty t \<longleftrightarrow> leading t = [] \<and> rows t = [[]]"

definition cat_last :: "'a tensor \<Rightarrow> 'a tensor \<Rightarrow> error + 'a tensor" where
  "cat_last a b =
     (if is_legacy_empty b then Inr a
      else if is_legacy_empty a then Inr b
      else if leading a \<noteq> leading b then Inl RuntimeError
      else Inr \<lparr>leading = leading a, rows = map2 (\<lambda>x y. x @ y) (rows a) (rows b)\<rparr>)"

text \<open>
  \<^verbatim>\<open>x[idx]\<close> with a list of (non-negative) integers: the rows at those indices, in
  the order of the list; \<^verbatim>\<open>IndexError\<close> when an index is out of range.
\<close>

definition index_rows :: "'a list \<Rightarrow> nat list \<Rightarrow> error + 'a list" where
  "index_rows xs idx =
     (if \<forall>i \<in> set idx. i < length xs then Inr (map (\<lambda>i. xs ! i) idx)
      else Inl IndexError)"

text \<open>
  \<^verbatim>\<open>x[mask]\<close> with a boolean mask over the first axis: the rows whose mask entry
  is true, in order; \<^verbatim>\<open>IndexError\<close> when the mask's length is not the number of rows.
\<close>

definition masked_index :: "'a list \<Rightarrow> bool list \<Rightarrow> error + 'a list" where
  "masked_index xs mask =
     (if length mask = length xs then Inr (map fst (filter snd (zip xs mask)))
      else Inl IndexError)"
  for mask

text \<open>
  A tensor of shape \<open>h \<times> w \<times> 3\<close> with its layout. \<open>Strides a b c\<close> are the strides, in
  entries, of the three axes of a tensor some caller built (\<open>3 * w, 3, 1\<close> when it is
  contiguous). \<open>Split_view\<close> is the layout of \<^verbatim>\<open>x.view(h, w, 3)\<close> for a tensor \<open>x\<close> of
  shape \<open>n \<times> 3\<close>: the tensors of a \<^verbatim>\<open>RayBundle\<close> carry no strides, and whatever they
  are, the two axes such a view splits the first axis into can be merged again.
\<close>

datatype layout = Strides nat nat nat | Split_view

record grid =
  cells :: "vec3 list list"
  layout :: layout

text \<open>
  Whether \<^verbatim>\<open>view\<close> can merge the first two axes of a grid: always when the grid has no
  entry or one of the two axes has size 1, and otherwise when every row starts where
  the row before it ends, \<open>stride[0] = size[1] * stride[1]\<close>.
\<close>

definition mergeable :: "grid \<Rightarrow> bool" where
  "mergeable g \<longleftrightarrow>
     (case layout g of
        Split_view \<Rightarrow> True
      | Strides a b c \<Rightarrow>
          (let h = length (cells g);
               w = (case cells g of [] \<Rightarrow> 0 | row # _ \<Rightarrow> length row)
           in h * w = 0 \<or> h = 1 \<or> w = 1 \<or> a = w * b))"

text \<open>
  \<^verbatim>\<open>x.view(-1, 3)\<close> on a tensor of shape \<open>h \<times> w \<times> 3\<close> lists the rows one after the
  other, and is a \<^verbatim>\<open>RuntimeError\<close> when the first two axes cannot be merged;
  \<^verbatim>\<open>x.view(h, w, 3)\<close> on a tensor of shape \<open>n \<times> 3\<close> cuts it into \<open>h\<close> rows of \<open>w\<close>
  entries and is a \<^verbatim>\<open>RuntimeError\<close> unless \<open>n = h * w\<close>.
\<close>

definition view_flat :: "grid \<Rightarrow> error + vec3 list" where
  "view_flat g = (if mergeable g then Inr (concat (cells g)) else Inl RuntimeError)"

fun chunk :: "nat \<Rightarrow> nat \<Rightarrow> 'a list \<Rightarrow> 'a list list" where
  "chunk 0 w xs = []"
| "chunk (Suc h) w xs = take w xs # chunk h w (drop w xs)"

definition view_grid :: "'a list \<Rightarrow> nat \<Rightarrow> nat \<Rightarrow> error + 'a list list" where
  "view_grid xs h w = (if length xs = h * w then Inr (chunk h w xs) else Inl RuntimeError)"

text \<open>
  The product of a \<^verbatim>\<open>long\<close> tensor entry \<open>x\<close> with a Python \<^verbatim>\<open>int\<close> \<open>c\<close>. torch
  converts \<open>c\<close> to a 64-bit scalar, signed when it fits and unsigned otherwise, and
  raises \<^verbatim>\<open>OverflowError\<close> when it fits neither; the product is an \<^verbatim>\<open>int64\<close> and
  wraps around.
\<close>

definition wrap64 :: "int \<Rightarrow> int" where
  "wrap64 x = (x + 2 ^ 63) mod 2 ^ 64 - 2 ^ 63"

definition long_mul :: "int \<Rightarrow> int \<Rightarrow> error + int" where
  "long_mul x c =
     (if c < - (2 ^ 63) \<or> 2 ^ 64 \<le> c then Inl OverflowError else Inr (wrap64 (x * c)))"

text \<open>
  \<^verbatim>\<open>random.sample(range(n), k)\<close> is the standard library's: it raises
  \<^verbatim>\<open>ValueError\<close> unless \<open>0 \<le> k \<le> n\<close> and otherwise returns a list chosen by the random
  source. The list it returns is the parameter \<open>draw\<close>; \<open>is_draw n k draw\<close> is the
  library's contract for it: \<open>k\<close> pairwise distinct elements of \<open>range(n)\<close>.
\<close>

definition random_sample :: "nat \<Rightarrow> int \<Rightarrow> nat list \<Rightarrow> error + nat list" where
  "random_sample n k draw = (if k < 0 \<or> int n < k then Inl ValueError else Inr draw)"

definition is_draw :: "nat \<Rightarrow> nat \<Rightarrow> nat list \<Rightarrow> bool" where
  "is_draw n k draw \<longleftrightarrow> length draw = k \<and> distinct draw \<and> (\<forall>i \<in> set draw. i < n)"

text \<open>
  Modelled from the spec: \<^verbatim>\<open>mattport.utils.misc.is_not_none\<close> is imported by the
  module and is not among the source files. The spec's words for its use are "fields
  absent in the source remain absent in the result".
\<close>

definition is_not_none :: "'a option \<Rightarrow> bool" where
  "is_not_none x \<longleftrightarrow> x \<noteq> None"

subsection \<open>The dataclasses\<close>

record RaySamples =
  positions :: "vec3 list list option"
  directions :: "vec3 list list option"
  camera_indices :: "int list list option"
  valid_mask :: "bool list list option"
  ts :: "real list list option"
  deltas :: "real tensor option"

record RayBundle =
  origins :: "vec3 list"
  directions :: "vec3 list"
  camera_indices :: "int list option"
  nears :: "real list option"
  fars :: "real list option"
  valid_mask :: "bool list option"

record CameraRayBundle =
  origins :: grid
  directions :: grid
  camera_indices :: "int list list option"
  camera_index :: "int option"

text \<open>The shape \<open>h \<times> w\<close> of a nested list.\<close>

definition has_shape :: "nat \<Rightarrow> nat \<Rightarrow> 'a list list \<Rightarrow> bool" where
  "has_shape h w g \<longleftrightarrow> length g = h \<and> (\<forall>row \<in> set g. length row = w)"

text \<open>
  A method that assigns to \<^verbatim>\<open>self\<close> and may raise afterwards: the object as the
  method leaves it, and the exception if one was raised.
\<close>

datatype 'a outcome = Returned 'a | Raised error 'a

subsection \<open>\<^verbatim>\<open>RaySamples.get_weights\<close>\<close>

definition get_weights :: "RaySamples \<Rightarrow> real list tensor \<Rightarrow> error + real tensor" where
  "get_weights self densities =
     and_then (select0 densities) (\<lambda>d0.
       case RaySamples.deltas self of
         None \<Rightarrow> Inl TypeError
       | Some dl \<Rightarrow>
           and_then (tmul dl d0) (\<lambda>delta_density.
             let alphas = tmap (\<lambda>x. 1 - exp (- x)) delta_density;
                 transmittance = cumsum (drop_last delta_density)
             in and_then (cat_last (zeros (dim0 transmittance)) transmittance)
                  (\<lambda>transmittance.
                    let transmittance = tmap (\<lambda>x. exp (- x)) transmittance
                    in tmul alphas transmittance)))"

subsection \<open>\<^verbatim>\<open>RayBundle\<close>\<close>

definition len :: "RayBundle \<Rightarrow> nat" where
  "len self = length (RayBundle.origins self)"

text \<open>
  The data model's invariant of a \<^verbatim>\<open>RayBundle\<close>: directions and every optional
  field that is present have one row per ray (\<^verbatim>\<open>TensorType["num_rays", ...]\<close>).
\<close>

definition well_formed :: "RayBundle \<Rightarrow> bool" where
  "well_formed B \<longleftrightarrow>
     length (RayBundle.directions B) = len B \<and>
     (case RayBundle.camera_indices B of None \<Rightarrow> True | Some x \<Rightarrow> length x = len B) \<and>
     (case RayBundle.nears B of None \<Rightarrow> True | Some x \<Rightarrow> length x = len B) \<and>
     (case RayBundle.fars B of None \<Rightarrow> True | Some x \<Rightarrow> length x = len B) \<and>
     (case RayBundle.valid_mask B of None \<Rightarrow> True | Some x \<Rightarrow> length x = len B)"

text \<open>
  The rows a mask selects, for stating what \<^verbatim>\<open>x[mask]\<close> returns: \<open>nths x (rows_where m)\<close>
  is \<open>x\<close> restricted to the rows where \<open>m\<close> is true.
\<close>

definition rows_where :: "bool list \<Rightarrow> nat set" where
  "rows_where m = {i. i < length m \<and> m ! i}" for m

definition sample :: "RayBundle \<Rightarrow> int \<Rightarrow> nat list \<Rightarrow> error + RayBundle" where
  "sample self num_rays draw =
     (if \<not> num_rays \<le> int (len self) then Inl AssertionError
      else
        and_then (random_sample (len self) num_rays draw) (\<lambda>indices.
        and_then (index_rows (RayBundle.origins self) indices) (\<lambda>os.
        and_then (index_rows (RayBundle.directions self) indices) (\<lambda>ds.
          case RayBundle.camera_indices self of
            None \<Rightarrow> Inl TypeError
          | Some ci \<Rightarrow>
              and_then (index_rows ci indices) (\<lambda>cs.
                Inr \<lparr>RayBundle.origins = os, RayBundle.directions = ds,
                     RayBundle.camera_indices = Some cs, RayBundle.nears = None,
                     RayBundle.fars = None, RayBundle.valid_mask = None\<rparr>)))))"

text \<open>
  \<^verbatim>\<open>x[mask] if is_not_none(x) else None\<close> for an optional field.
\<close>

definition masked_opt :: "'a list option \<Rightarrow> bool list \<Rightarrow> error + 'a list option" where
  "masked_opt x mask =
     (if is_not_none x then and_then (masked_index (the x) mask) (\<lambda>v. Inr (Some v))
      else Inr None)"
  for mask

definition get_masked_ray_bundle :: "RayBundle \<Rightarrow> bool list \<Rightarrow> error + RayBundle" where
  "get_masked_ray_bundle self mask =
     and_then (masked_index (RayBundle.origins self) mask) (\<lambda>os.
     and_then (masked_index (RayBundle.directions self) mask) (\<lambda>ds.
     and_then (masked_opt (RayBundle.camera_indices self) mask) (\<lambda>cs.
     and_then (masked_opt (RayBundle.nears self) mask) (\<lambda>ns.
     and_then (masked_opt (RayBundle.fars self) mask) (\<lambda>fs.
     and_then (masked_opt (RayBundle.valid_mask self) mask) (\<lambda>vs.
       Inr \<lparr>RayBundle.origins = os, RayBundle.directions = ds,
            RayBundle.camera_indices = cs, RayBundle.nears = ns,
            RayBundle.fars = fs, RayBundle.valid_mask = vs\<rparr>))))))"
  for mask

definition get_ray_samples :: "RayBundle \<Rightarrow> real list list \<Rightarrow> error + RaySamples" where
  "get_ray_samples self ts =
     and_then (broadcast ts (RayBundle.directions self)) (\<lambda>td.
     and_then (broadcast (RayBundle.origins self)
                 (map (\<lambda>(trow, d). map (\<lambda>t. vscale t d) trow) td)) (\<lambda>od.
       let positions = map (\<lambda>(orig, prow). map (\<lambda>p. vadd orig p) prow) od;
           num_samples = (case positions of [] \<Rightarrow> 0 | p # _ \<Rightarrow> length p);
           directions = map (replicate num_samples) (RayBundle.directions self);
           valid_mask = map (map (\<lambda>_. True)) ts;
           dists = map (\<lambda>row. map2 (\<lambda>a b. a - b) (tl row) (butlast row)) ts;
           dists = map (\<lambda>row. row @ drop (length row - 1) row) dists
       in
         and_then (broadcast dists (map norm3 (RayBundle.directions self))) (\<lambda>dn.
           let deltas = map (\<lambda>(drow, n). map (\<lambda>x. x * n) drow) dn;
               camera_indices =
                 (case RayBundle.camera_indices self of
                    Some ci \<Rightarrow> Some (map (replicate num_samples) ci)
                  | None \<Rightarrow> None)
           in Inr \<lparr>RaySamples.positions = Some positions,
                   RaySamples.directions = Some directions,
                   RaySamples.camera_indices = camera_indices,
                   RaySamples.valid_mask = Some valid_mask,
                   RaySamples.ts = Some ts,
                   RaySamples.deltas = Some (of_rows deltas)\<rparr>)))"
  for ts

subsection \<open>\<^verbatim>\<open>CameraRayBundle\<close>\<close>

definition set_camera_indices :: "CameraRayBundle \<Rightarrow> int \<Rightarrow> CameraRayBundle outcome" where
  "set_camera_indices self camera_index =
     (let self = self\<lparr>CameraRayBundle.camera_index := Some camera_index\<rparr>
      in case long_mul 1 camera_index of
           Inl e \<Rightarrow> Raised e self
         | Inr v \<Rightarrow>
             Returned (self\<lparr>CameraRayBundle.camera_indices :=
               Some (map (map (\<lambda>_. v)) (cells (CameraRayBundle.origins self)))\<rparr>))"
  for camera_index

text \<open>
  The dataclass constructor followed by \<^verbatim>\<open>__post_init__\<close>; an exception of
  \<^verbatim>\<open>set_camera_indices\<close> leaves the constructor, and no object is returned.
\<close>

definition new_CameraRayBundle ::
  "grid \<Rightarrow> grid \<Rightarrow> int list list option \<Rightarrow> int option \<Rightarrow> error + CameraRayBundle" where
  "new_CameraRayBundle origins directions camera_indices camera_index =
     (let self = \<lparr>CameraRayBundle.origins = origins,
                  CameraRayBundle.directions = directions,
                  CameraRayBundle.camera_indices = camera_indices,
                  CameraRayBundle.camera_index = camera_index\<rparr>
      in case camera_index of
           None \<Rightarrow> Inr self
         | Some c \<Rightarrow>
             (case set_camera_indices self c of
                Returned s \<Rightarrow> Inr s
              | Raised e _ \<Rightarrow> Inl e))"
  for origins directions camera_indices camera_index

definition get_num_rays :: "CameraRayBundle \<Rightarrow> nat" where
  "get_num_rays self =
     length (cells (CameraRayBundle.origins self)) *
       (case cells (CameraRayBundle.origins self) of [] \<Rightarrow> 0 | row # _ \<Rightarrow> length row)"

definition to_ray_bundle :: "CameraRayBundle \<Rightarrow> error + RayBundle" where
  "to_ray_bundle self =
     and_then (view_flat (CameraRayBundle.origins self)) (\<lambda>os.
     and_then (view_flat (CameraRayBundle.directions self)) (\<lambda>ds.
       Inr \<lparr>RayBundle.origins = os, RayBundle.directions = ds,
            RayBundle.camera_indices = None, RayBundle.nears = None,
            RayBundle.fars = None, RayBundle.valid_mask = None\<rparr>))"

definition to_camera_ray_bundle :: "RayBundle \<Rightarrow> nat \<Rightarrow> nat \<Rightarrow> error + CameraRayBundle" where
  "to_camera_ray_bundle self image_height image_width =
     and_then (view_grid (RayBundle.origins self) image_height image_width) (\<lambda>os.
     and_then (view_grid (RayBundle.directions self) image_height image_width) (\<lambda>ds.
     and_then (case RayBundle.camera_indices self of
                 Some ci \<Rightarrow> and_then (view_grid ci image_height image_width) (\<lambda>g. Inr (Some g))
               | None \<Rightarrow> Inr None) (\<lambda>grid.
       new_CameraRayBundle \<lparr>cells = os, layout = Split_view\<rparr>
         \<lparr>cells = ds, layout = Split_view\<rparr> grid None)))"

section \<open>Auxiliary facts about the tensor operations\<close>

lemma length_concat_has_shape: "has_shape h w g \<Longrightarrow> length (concat g) = h * w"
  by (induction g arbitrary: h) (auto simp: has_shape_def)

lemma chunk_concat: "has_shape h w g \<Longrightarrow> chunk h w (concat g) = g"
  by (induction g arbitrary: h) (auto simp: has_shape_def)

lemma const_grid: "has_shape h w g \<Longrightarrow> map (map (\<lambda>_. c)) g = replicate h (replicate w c)"
  by (induction g arbitrary: h) (auto simp: has_shape_def map_replicate_const)

lemma rows_where_Cons: "{j. Suc j \<in> rows_where (b # m)} = rows_where m"
  by (auto simp: rows_where_def)

lemma masked_rows:
  "length m = length xs \<Longrightarrow> map fst (filter snd (zip xs m)) = nths xs (rows_where m)"
proof (induction xs m rule: list_induct2')
  case (4 x xs b m)
  then show ?case by (simp add: nths_Cons rows_where_Cons) (simp add: rows_where_def)
qed (simp_all add: rows_where_def)

lemma masked_index_nths:
  "length m = length xs \<Longrightarrow> masked_index xs m = Inr (nths xs (rows_where m))"
  by (simp add: masked_index_def masked_rows)

lemma masked_opt_nths:
  "(case x of None \<Rightarrow> True | Some v \<Rightarrow> length v = length m) \<Longrightarrow>
   masked_opt x m = Inr (map_option (\<lambda>v. nths v (rows_where m)) x)"
  by (cases x) (simp_all add: masked_opt_def is_not_none_def masked_index_nths and_then_def)

lemma drop_to_last: "d \<noteq> [] \<Longrightarrow> drop (length d - 1) d = [last d]"
  by (cases d rule: rev_cases) simp_all

lemma nth_dists:
  fixes row :: "real list"
  assumes "Suc s < length row"
  shows "map2 (\<lambda>a b. a - b) (tl row) (butlast row) ! s = row ! Suc s - row ! s"
  using assms by (simp add: nth_tl nth_butlast)

lemma dists_row:
  fixes row :: "real list"
  assumes d: "d = map2 (\<lambda>a b. a - b) (tl row) (butlast row)"
      and len: "length row = Suc (Suc n)"
  shows "length (d @ drop (length d - 1) d) = Suc (Suc n)"
    and "s < Suc n \<Longrightarrow> (d @ drop (length d - 1) d) ! s = row ! Suc s - row ! s"
    and "(d @ drop (length d - 1) d) ! Suc n = row ! Suc n - row ! n"
proof -
  have ld: "length d = Suc n" using len by (simp add: d)
  then have ne: "d \<noteq> []" by auto
  have nd: "d ! i = row ! Suc i - row ! i" if "i < Suc n" for i
    using that len nth_dists [of i row] by (simp add: d)
  have full: "d @ drop (length d - 1) d = d @ [last d]"
    by (simp only: drop_to_last [OF ne])
  have lst: "last d = d ! n" using ne ld by (simp add: last_conv_nth)
  show "length (d @ drop (length d - 1) d) = Suc (Suc n)"
    by (simp only: full) (simp add: ld)
  show "(d @ drop (length d - 1) d) ! s = row ! Suc s - row ! s" if "s < Suc n"
    using that nd [OF that] by (simp only: full) (simp add: nth_append ld)
  show "(d @ drop (length d - 1) d) ! Suc n = row ! Suc n - row ! n"
    using nd [of n] by (simp only: full) (simp add: nth_append ld lst)
qed


lemma broadcast_same: "length xs = length ys \<Longrightarrow> broadcast xs ys = Inr (zip xs ys)"
  by (simp add: broadcast_def)

lemma first_row_length:
  "has_shape N S P \<Longrightarrow> length ds = N \<Longrightarrow>
   map (replicate (case P of [] \<Rightarrow> 0 | p # _ \<Rightarrow> length p)) ds = map (replicate S) ds"
  by (cases P) (auto simp: has_shape_def)

lemma has_shape_nth: "has_shape N S g \<Longrightarrow> r < N \<Longrightarrow> length (g ! r) = S"
  by (auto simp: has_shape_def)

lemma has_shapeI: "length g = N \<Longrightarrow> (\<And>r. r < N \<Longrightarrow> length (g ! r) = S) \<Longrightarrow> has_shape N S g"
  by (auto simp: has_shape_def in_set_conv_nth)

lemma nth_positions:
  fixes ts :: "real list list"
  assumes "length os = length ts" and "length ds = length ts" and "r < length ts"
  shows "map (\<lambda>(orig, prow). map (\<lambda>p. vadd orig p) prow)
           (zip os (map (\<lambda>(trow, d). map (\<lambda>t. vscale t d) trow) (zip ts ds))) ! r =
         map (\<lambda>t. vadd (os ! r) (vscale t (ds ! r))) (ts ! r)"
  using assms by simp

lemma nth_deltas:
  fixes dists :: "real list list"
  assumes "length ds = length dists" and "r < length dists"
  shows "map (\<lambda>(drow, n). map (\<lambda>x. x * n) drow) (zip dists (map norm3 ds)) ! r =
         map (\<lambda>x. x * norm3 (ds ! r)) (dists ! r)"
  using assms by simp

lemma is_draw_le: "is_draw n k draw \<Longrightarrow> k \<le> n"
proof -
  assume d: "is_draw n k draw"
  then have "set draw \<subseteq> {..<n}" by (auto simp: is_draw_def)
  then have "card (set draw) \<le> card {..<n}" by (intro card_mono) simp_all
  with d show "k \<le> n" by (simp add: is_draw_def distinct_card)
qed

lemma vadd_vscale:
  "vadd p (vscale t d) =
     (case (p, d) of ((ox, oy, oz), (dx, dy, dz)) \<Rightarrow> (ox + t * dx, oy + t * dy, oz + t * dz))"
  by (simp split: prod.splits)

lemma norm3_euclid:
  "norm3 d = (case d of (dx, dy, dz) \<Rightarrow> sqrt (dx\<^sup>2 + dy\<^sup>2 + dz\<^sup>2))"
  by (simp add: power2_eq_square split: prod.splits)

lemma get_ray_samples_deltas_norm3:
  fixes ts :: "real list list"
  assumes "length (RayBundle.origins B) = N" and "length (RayBundle.directions B) = N"
      and "has_shape N S ts" and "2 \<le> S"
  shows "\<exists>rs Dl. get_ray_samples B ts = Inr rs \<and>
           RaySamples.deltas rs = Some (of_rows Dl) \<and> has_shape N S Dl \<and>
           (\<forall>r < N.
              (\<forall>s. s + 1 < S \<longrightarrow>
                 Dl ! r ! s = (ts ! r ! (s + 1) - ts ! r ! s) * norm3 (RayBundle.directions B ! r)) \<and>
              Dl ! r ! (S - 1) =
                 (ts ! r ! (S - 1) - ts ! r ! (S - 2)) * norm3 (RayBundle.directions B ! r) \<and>
              Dl ! r ! (S - 1) = Dl ! r ! (S - 2))"
proof -
  from assms(4) obtain n where S: "S = Suc (Suc n)"
    by (metis Suc_le_D numeral_2_eq_2 Suc_le_mono)
  from assms have lt: "length ts = N" by (simp add: has_shape_def)
  with assms have lo: "length (RayBundle.origins B) = length ts"
    and ld: "length (RayBundle.directions B) = length ts" by simp_all
  let ?dist = "\<lambda>row :: real list. map2 (\<lambda>a b. a - b) (tl row) (butlast row)"
  let ?dists = "map (\<lambda>row. row @ drop (length row - 1) row) (map ?dist ts)"
  let ?Dl = "map (\<lambda>(drow, n). map (\<lambda>x. x * n) drow)
               (zip ?dists (map norm3 (RayBundle.directions B)))"
  have lrow: "length (ts ! r) = Suc (Suc n)" if "r < N" for r
    using that has_shape_nth [OF assms(3)] S by simp
  have drow: "?dists ! r = ?dist (ts ! r) @ drop (length (?dist (ts ! r)) - 1) (?dist (ts ! r))"
    if "r < N" for r
    using that lt by simp
  have row: "?Dl ! r = map (\<lambda>x. x * norm3 (RayBundle.directions B ! r)) (?dists ! r)"
    if "r < N" for r
    using that lt ld nth_deltas [of "RayBundle.directions B" ?dists r] by simp
  have len_d: "length (?dists ! r) = Suc (Suc n)" if "r < N" for r
    using dists_row(1) [OF refl lrow [OF that]] by (simp only: drow [OF that])
  have inner: "?dists ! r ! s = ts ! r ! Suc s - ts ! r ! s" if "r < N" "s < Suc n" for r s
    using dists_row(2) [OF refl lrow [OF that(1)] that(2)] by (simp only: drow [OF that(1)])
  have final: "?dists ! r ! Suc n = ts ! r ! Suc n - ts ! r ! n" if "r < N" for r
    using dists_row(3) [OF refl lrow [OF that]] by (simp only: drow [OF that])
  have shDl: "has_shape N S ?Dl"
  proof (rule has_shapeI)
    show "length ?Dl = N" using ld lt by simp
    show "length (?Dl ! r) = S" if "r < N" for r
      using len_d [OF that] S by (simp only: row [OF that]) simp
  qed
  obtain rs where rs: "get_ray_samples B ts = Inr rs"
    and dl: "RaySamples.deltas rs = Some (of_rows ?Dl)"
    using lo ld
    by (simp add: get_ray_samples_def broadcast_same and_then_def Let_def)
  have pt: "(\<forall>s. s + 1 < S \<longrightarrow>
                 ?Dl ! r ! s = (ts ! r ! (s + 1) - ts ! r ! s) * norm3 (RayBundle.directions B ! r)) \<and>
              ?Dl ! r ! (S - 1) =
                 (ts ! r ! (S - 1) - ts ! r ! (S - 2)) * norm3 (RayBundle.directions B ! r) \<and>
              ?Dl ! r ! (S - 1) = ?Dl ! r ! (S - 2)" if "r < N" for r
  proof -
    have a: "?Dl ! r ! s = (ts ! r ! Suc s - ts ! r ! s) * norm3 (RayBundle.directions B ! r)"
      if "s < Suc n" for s
      using that len_d [OF \<open>r < N\<close>] inner [OF \<open>r < N\<close> that]
      by (simp only: row [OF \<open>r < N\<close>]) simp
    have b: "?Dl ! r ! Suc n = (ts ! r ! Suc n - ts ! r ! n) * norm3 (RayBundle.directions B ! r)"
      using len_d [OF \<open>r < N\<close>] final [OF \<open>r < N\<close>]
      by (simp only: row [OF \<open>r < N\<close>]) simp
    from a [of n] b have c: "?Dl ! r ! Suc n = ?Dl ! r ! n" by simp
    have S1: "S - 1 = Suc n" and S2: "S - 2 = n" using S by simp_all
    show ?thesis
      unfolding S1 S2 using a b c S by simp
  qed
  from rs dl shDl pt show ?thesis by blast
qed


lemma wrap64_id: "- (2 ^ 63) \<le> c \<Longrightarrow> c < 2 ^ 63 \<Longrightarrow> wrap64 c = c"
  by (simp add: wrap64_def)

lemma long_mul_one: "- (2 ^ 63) \<le> c \<Longrightarrow> c < 2 ^ 63 \<Longrightarrow> long_mul 1 c = Inr c"
  by (simp add: long_mul_def wrap64_id)

lemma collect_Inr: "(\<And>x. x \<in> set xs \<Longrightarrow> g x = Inr (f x)) \<Longrightarrow> collect (map g xs) = Inr (map f xs)"
  by (induction xs) (simp_all add: and_then_def)

lemma length_cumsum_from: "length (cumsum_from a xs) = length xs"
  by (induction xs arbitrary: a) simp_all

lemma nth_cumsum_from: "i < length xs \<Longrightarrow> cumsum_from a xs ! i = a + sum_list (take (Suc i) xs)"
proof (induction xs arbitrary: a i)
  case Nil
  then show ?case by simp
next
  case (Cons x xs)
  then show ?case by (cases i) (simp_all add: add.assoc)
qed

lemma nth_shifted_cumsum:
  "i \<le> length xs \<Longrightarrow> (0 # cumsum_from 0 xs) ! i = sum_list (take i xs)"
  by (cases i) (simp_all add: nth_cumsum_from)

lemma sum_list_take_nth:
  fixes xs :: "real list"
  shows "i \<le> length xs \<Longrightarrow> sum_list (take i xs) = (\<Sum>j<i. xs ! j)"
proof (induction i)
  case 0
  then show ?case by simp
next
  case (Suc i)
  then show ?case by (simp add: take_Suc_conv_app_nth)
qed

lemma take_butlast_le: "i < length xs \<Longrightarrow> take i (butlast xs) = take i xs"
  by (auto simp: butlast_conv_take min_def)

lemma transmittance_entry:
  fixes row :: "real list"
  assumes "i < length row"
  shows "(0 # cumsum_from 0 (butlast row)) ! i = (\<Sum>j<i. row ! j)"
proof -
  from assms have "i \<le> length (butlast row)" by simp
  then have "(0 # cumsum_from 0 (butlast row)) ! i = sum_list (take i (butlast row))"
    by (rule nth_shifted_cumsum)
  also have "\<dots> = sum_list (take i row)" using assms by (simp only: take_butlast_le)
  also have "\<dots> = (\<Sum>j<i. row ! j)" using assms by (simp add: sum_list_take_nth)
  finally show ?thesis .
qed

lemma mul1_same: "length xs = length ys \<Longrightarrow> mul1 xs ys = Inr (map (\<lambda>(x, y). x * y) (zip xs ys))"
  by (simp add: mul1_def broadcast_def and_then_def)

lemma mul1_empty_one: "length ys = 1 \<Longrightarrow> mul1 [] ys = Inr []"
  by (simp add: mul1_def broadcast_def and_then_def)

lemma weights_row_ok:
  fixes row :: "real list"
  shows "mul1 (map (\<lambda>x. 1 - exp (- x)) row) (map (\<lambda>x. exp (- x)) (0 # cumsum_from 0 (butlast row))) =
         Inr (map (\<lambda>i. (1 - exp (- (row ! i))) * exp (- (\<Sum>j<i. row ! j))) [0..<length row])"
proof (cases "row = []")
  case True
  then show ?thesis by (simp add: mul1_empty_one)
next
  case False
  let ?a = "map (\<lambda>x. 1 - exp (- x)) row"
  let ?t = "map (\<lambda>x. exp (- x)) (0 # cumsum_from 0 (butlast row))"
  from False have len: "length ?a = length ?t"
    by (simp add: length_cumsum_from)
  have "map (\<lambda>(x, y). x * y) (zip ?a ?t) =
        map (\<lambda>i. (1 - exp (- (row ! i))) * exp (- (\<Sum>j<i. row ! j))) [0..<length row]"
  proof (rule nth_equalityI)
    show "length (map (\<lambda>(x, y). x * y) (zip ?a ?t)) =
          length (map (\<lambda>i. (1 - exp (- (row ! i))) * exp (- (\<Sum>j<i. row ! j))) [0..<length row])"
      using len by simp
  next
    fix i assume "i < length (map (\<lambda>(x, y). x * y) (zip ?a ?t))"
    then have i: "i < length row" by simp
    then have it: "i < length (0 # cumsum_from 0 (butlast row))"
      by (simp add: length_cumsum_from)
    have "?t ! i = exp (- ((0 # cumsum_from 0 (butlast row)) ! i))"
      using it by (simp only: nth_map)
    then have t: "?t ! i = exp (- (\<Sum>j<i. row ! j))"
      by (simp only: transmittance_entry [OF i])
    have "map (\<lambda>(x, y). x * y) (zip ?a ?t) ! i = ?a ! i * ?t ! i"
      using i len by simp
    then show "map (\<lambda>(x, y). x * y) (zip ?a ?t) ! i =
          map (\<lambda>i. (1 - exp (- (row ! i))) * exp (- (\<Sum>j<i. row ! j))) [0..<length row] ! i"
      using i by (simp only: t) simp
  qed
  with mul1_same [OF len] show ?thesis by simp
qed

lemma singleton_conv_nth: "length xs = 1 \<Longrightarrow> xs ! 0 = v \<Longrightarrow> xs = [v]"
  by (cases xs) simp_all

lemma broadcast_shape_same1: "broadcast_shape [n] [n] = Some [n]"
  by (simp add: broadcast_shape_def)

lemma indices_one: "indices [n] = map (\<lambda>i. [i]) [0..<n]"
  by (simp add: concat_map_singleton)

lemma offset_one: "i < n \<Longrightarrow> offset [n] [i] = i"
  by (simp add: offset_def)

lemma tmul_of_rows:
  assumes "length A = length B"
      and "\<And>i. i < length A \<Longrightarrow> mul1 (A ! i) (B ! i) = Inr (f i)"
  shows "tmul (of_rows A) (of_rows B) = Inr (of_rows (map f [0..<length A]))"
proof -
  have "collect (map (\<lambda>i. mul1 (A ! offset [length A] [i]) (B ! offset [length A] [i]))
          [0..<length A]) = Inr (map f [0..<length A])"
    by (rule collect_Inr) (simp add: offset_one assms(2))
  then show ?thesis
    using assms(1)
    by (simp add: tmul_def of_rows_def broadcast_shape_same1 indices_one comp_def and_then_def)
qed


lemma tmap_of_rows: "tmap f (of_rows r) = of_rows (map (map f) r)"
  by (simp add: tmap_def of_rows_def)

lemma drop_last_of_rows: "drop_last (of_rows r) = of_rows (map butlast r)"
  by (simp add: drop_last_def of_rows_def)

lemma cumsum_of_rows: "cumsum (of_rows r) = of_rows (map (cumsum_from 0) r)"
  by (simp add: cumsum_def of_rows_def)

lemma dim0_of_rows: "dim0 (of_rows r) = length r"
  by (simp add: dim0_def of_rows_def)

lemma map2_replicate: "map2 (\<lambda>x y. x @ y) (replicate (length r) [z]) r = map (\<lambda>row. z # row) r"
  by (induction r) simp_all

lemma cat_zeros_of_rows:
  "cat_last (zeros (length r)) (of_rows r) = Inr (of_rows (map (\<lambda>row. 0 # row) r))"
  by (simp add: cat_last_def zeros_def of_rows_def is_legacy_empty_def map2_replicate)

lemma select0_of_rows:
  "(\<And>row c. row \<in> set x \<Longrightarrow> c \<in> set row \<Longrightarrow> c \<noteq> []) \<Longrightarrow>
   select0 (of_rows x) = Inr (of_rows (map (map hd) x))"
  by (auto simp: select0_def tmap_of_rows) (auto simp: of_rows_def)

lemma weights_of_delta_density:
  fixes dd :: "real list list"
  shows "tmul (of_rows (map (map (\<lambda>x. 1 - exp (- x))) dd))
           (of_rows (map (map (\<lambda>x. exp (- x)))
              (map (\<lambda>row. 0 # row) (map (cumsum_from 0) (map butlast dd))))) =
         Inr (of_rows (map (\<lambda>i. map (\<lambda>k. (1 - exp (- (dd ! i ! k))) * exp (- (\<Sum>j<k. dd ! i ! j)))
                [0..<length (dd ! i)]) [0..<length dd]))"
proof -
  let ?A = "map (map (\<lambda>x. 1 - exp (- x))) dd"
  let ?T = "map (map (\<lambda>x. exp (- x))) (map (\<lambda>row. 0 # row) (map (cumsum_from 0) (map butlast dd)))"
  have "tmul (of_rows ?A) (of_rows ?T) =
        Inr (of_rows (map (\<lambda>i. map (\<lambda>k. (1 - exp (- (dd ! i ! k))) * exp (- (\<Sum>j<k. dd ! i ! j)))
                [0..<length (dd ! i)]) [0..<length ?A]))"
  proof (rule tmul_of_rows)
    show "length ?A = length ?T" by simp
    fix i assume "i < length ?A"
    then have i: "i < length dd" by simp
    then have "?A ! i = map (\<lambda>x. 1 - exp (- x)) (dd ! i)"
      and "?T ! i = map (\<lambda>x. exp (- x)) (0 # cumsum_from 0 (butlast (dd ! i)))"
      by simp_all
    then show "mul1 (?A ! i) (?T ! i) =
        Inr (map (\<lambda>k. (1 - exp (- (dd ! i ! k))) * exp (- (\<Sum>j<k. dd ! i ! j))) [0..<length (dd ! i)])"
      by (simp only: weights_row_ok)
  qed
  then show ?thesis by simp
qed

section \<open>Properties of the methods\<close>

subsection \<open>\<^verbatim>\<open>RaySamples.get_weights\<close>\<close>

text \<open>
  For deltas of shape \<open>N \<times> S\<close> (one leading axis, as \<^verbatim>\<open>get_ray_samples\<close> builds them)
  and densities of shape \<open>N \<times> S \<times> C\<close> with \<open>C \<ge> 1\<close>, \<^verbatim>\<open>get_weights(densities)\<close>
  returns weights of shape \<open>N \<times> S\<close> with
  \<open>weight[r,i] = (1 - exp(-deltas[r,i] * densities[r,i,0])) *
     exp(-(\<Sum>j<i. deltas[r,j] * densities[r,j,0]))\<close>.
  The sum is empty for \<open>i = 0\<close>, so the transmittance of the first sample is 1, and for
  one sample per ray the weight is \<open>1 - exp(-deltas[r,0] * densities[r,0,0])\<close>.
\<close>

lemma get_weights_rank2:
  assumes "RaySamples.deltas self = Some (of_rows dl)"
      and "length densities = length dl"
      and "\<forall>r < length dl. length (densities ! r) = length (dl ! r)"
      and "\<forall>row \<in> set densities. \<forall>c \<in> set row. c \<noteq> []"
  shows "\<exists>w. get_weights self (of_rows densities) = Inr (of_rows w) \<and> length w = length dl \<and>
           (\<forall>r < length dl. length (w ! r) = length (dl ! r) \<and>
              (\<forall>i < length (dl ! r).
                 w ! r ! i =
                   (1 - exp (- (dl ! r ! i * densities ! r ! i ! 0))) *
                   exp (- (\<Sum>j<i. dl ! r ! j * densities ! r ! j ! 0))) \<and>
              (length (dl ! r) = 1 \<longrightarrow>
                 w ! r = [1 - exp (- (dl ! r ! 0 * densities ! r ! 0 ! 0))]))"
proof -
  let ?d0 = "map (map hd) densities"
  let ?dd = "map (\<lambda>i. map (\<lambda>(x, y). x * y) (zip (dl ! i) (?d0 ! i))) [0..<length dl]"
  let ?w = "map (\<lambda>i. map (\<lambda>k. (1 - exp (- (?dd ! i ! k))) * exp (- (\<Sum>j<k. ?dd ! i ! j)))
                [0..<length (?dd ! i)]) [0..<length ?dd]"
  have s0: "select0 (of_rows densities) = Inr (of_rows ?d0)"
    using assms(4) by (intro select0_of_rows) blast
  have m: "tmul (of_rows dl) (of_rows ?d0) = Inr (of_rows ?dd)"
  proof (rule tmul_of_rows)
    show "length dl = length ?d0" using assms(2) by simp
    fix i assume i: "i < length dl"
    with assms(2,3) have "length (dl ! i) = length (?d0 ! i)" by simp
    then show "mul1 (dl ! i) (?d0 ! i) = Inr (map (\<lambda>(x, y). x * y) (zip (dl ! i) (?d0 ! i)))"
      by (rule mul1_same)
  qed
  have gw: "get_weights self (of_rows densities) = Inr (of_rows ?w)"
    unfolding get_weights_def
    by (simp only: s0 m assms(1) and_then_def sum.case option.case Let_def tmap_of_rows
          drop_last_of_rows cumsum_of_rows dim0_of_rows cat_zeros_of_rows
          weights_of_delta_density)
  have lw: "length ?w = length dl" by simp
  have ddrow: "?dd ! r = map (\<lambda>(x, y). x * y) (zip (dl ! r) (map hd (densities ! r)))"
    if "r < length dl" for r
    using that assms(2) by simp
  have ldd: "length (?dd ! r) = length (dl ! r)" if "r < length dl" for r
    using that assms(3) by (simp only: ddrow [OF that]) simp
  have dde: "?dd ! r ! j = dl ! r ! j * densities ! r ! j ! 0"
    if "r < length dl" "j < length (dl ! r)" for r j
  proof -
    from that assms(2,3) have "densities ! r ! j \<in> set (densities ! r)" "densities ! r \<in> set densities"
      by simp_all
    with assms(4) have "densities ! r ! j \<noteq> []" by blast
    then have "hd (densities ! r ! j) = densities ! r ! j ! 0" by (rule hd_conv_nth)
    with that assms(3) show ?thesis by (simp only: ddrow [OF that(1)]) simp
  qed
  have wrow: "?w ! r = map (\<lambda>k. (1 - exp (- (?dd ! r ! k))) * exp (- (\<Sum>j<k. ?dd ! r ! j)))
                [0..<length (?dd ! r)]" if "r < length dl" for r
    using that by simp
  have entry: "?w ! r ! i =
      (1 - exp (- (dl ! r ! i * densities ! r ! i ! 0))) *
      exp (- (\<Sum>j<i. dl ! r ! j * densities ! r ! j ! 0))"
    if r: "r < length dl" and i: "i < length (dl ! r)" for r i
  proof -
    have "(\<Sum>j<i. ?dd ! r ! j) = (\<Sum>j<i. dl ! r ! j * densities ! r ! j ! 0)"
      by (rule sum.cong) (use i dde [OF r] in auto)
    moreover have "?w ! r ! i = (1 - exp (- (?dd ! r ! i))) * exp (- (\<Sum>j<i. ?dd ! r ! j))"
      using i ldd [OF r] by (simp only: wrow [OF r]) simp
    ultimately show ?thesis by (simp only: dde [OF r i])
  qed
  have lrow: "length (?w ! r) = length (dl ! r)" if r: "r < length dl" for r
    using ldd [OF r] by (simp only: wrow [OF r]) simp
  have single: "?w ! r = [1 - exp (- (dl ! r ! 0 * densities ! r ! 0 ! 0))]"
    if r: "r < length dl" and one: "length (dl ! r) = 1" for r
  proof -
    from one have "0 < length (dl ! r)" by simp
    from entry [OF r this] have "?w ! r ! 0 = 1 - exp (- (dl ! r ! 0 * densities ! r ! 0 ! 0))"
      by simp
    moreover from lrow [OF r] one have "length (?w ! r) = 1" by simp
    ultimately show ?thesis by (intro singleton_conv_nth)
  qed
  show ?thesis
  proof (intro exI conjI allI impI)
    show "get_weights self (of_rows densities) = Inr (of_rows ?w)" by (rule gw)
    show "length ?w = length dl" by (rule lw)
    show "length (?w ! r) = length (dl ! r)" if "r < length dl" for r
      using that by (rule lrow)
    show "?w ! r ! i =
      (1 - exp (- (dl ! r ! i * densities ! r ! i ! 0))) *
      exp (- (\<Sum>j<i. dl ! r ! j * densities ! r ! j ! 0))"
      if "r < length dl" "i < length (dl ! r)" for r i
      using that by (rule entry)
    show "?w ! r = [1 - exp (- (dl ! r ! 0 * densities ! r ! 0 ! 0))]"
      if "r < length dl" "length (dl ! r) = 1" for r
      using that by (rule single)
  qed
qed


lemma get_weights_rank2_example:
  "get_weights
     \<lparr>RaySamples.positions = None, RaySamples.directions = None,
      RaySamples.camera_indices = None, RaySamples.valid_mask = None,
      RaySamples.ts = None, RaySamples.deltas = Some (of_rows [[1, 2, 3], [2, 0, 1]])\<rparr>
     (of_rows [[[1], [1], [2]], [[3], [5], [1]]]) =
     Inr (of_rows [[1 - exp (- 1), (1 - exp (- 2)) * exp (- 1), (1 - exp (- 6)) * exp (- 3)],
                   [1 - exp (- 6), 0, (1 - exp (- 1)) * exp (- 6)]])"
  by (simp add: get_weights_def select0_def tmap_def tmul_def broadcast_shape_def offset_def
        mul1_def broadcast_def and_then_def cumsum_def drop_last_def dim0_def zeros_def
        cat_last_def is_legacy_empty_def of_rows_def numeral_2_eq_2)

text \<open>
  C1. The claim is this formula for deltas and densities of every matching leading
  shape, as the signature \<^verbatim>\<open>TensorType[..., "num_samples", 1]\<close> and the comments
  \<^verbatim>\<open># [..., "num_samples"]\<close> of the method have it. With two leading axes (deltas of
  shape \<open>2 \<times> 1 \<times> 2\<close>, densities of shape \<open>2 \<times> 1 \<times> 2 \<times> 1\<close>) and with none (deltas of
  shape \<open>2\<close>, densities of shape \<open>2 \<times> 1\<close>) the method raises \<^verbatim>\<open>RuntimeError\<close> instead:
  \<^verbatim>\<open>torch.zeros((*transmittance.shape[:1], 1))\<close> always has two axes, and
  \<^verbatim>\<open>torch.cat\<close> refuses to join it to a tensor with another number of axes.
\<close>

theorem get_weights_fails_beyond_rank2:
  "get_weights
     \<lparr>RaySamples.positions = None, RaySamples.directions = None,
      RaySamples.camera_indices = None, RaySamples.valid_mask = None,
      RaySamples.ts = None,
      RaySamples.deltas = Some \<lparr>leading = [2, 1], rows = [[1, 2], [3, 4]]\<rparr>\<rparr>
     \<lparr>leading = [2, 1], rows = [[[1], [1]], [[1], [1]]]\<rparr> = Inl RuntimeError \<and>
   get_weights
     \<lparr>RaySamples.positions = None, RaySamples.directions = None,
      RaySamples.camera_indices = None, RaySamples.valid_mask = None,
      RaySamples.ts = None,
      RaySamples.deltas = Some \<lparr>leading = [], rows = [[1, 2]]\<rparr>\<rparr>
     \<lparr>leading = [], rows = [[[1], [1]]]\<rparr> = Inl RuntimeError"
  by (simp add: get_weights_def select0_def tmap_def tmul_def broadcast_shape_def offset_def
        mul1_def broadcast_def and_then_def cumsum_def drop_last_def dim0_def zeros_def
        cat_last_def is_legacy_empty_def numeral_2_eq_2)


subsection \<open>\<^verbatim>\<open>CameraRayBundle.to_ray_bundle\<close> and \<^verbatim>\<open>RayBundle.to_camera_ray_bundle\<close>\<close>

text \<open>
  C6, as the code has it. For a \<^verbatim>\<open>CameraRayBundle\<close> whose origins and directions have
  shape \<open>h \<times> w \<times> 3\<close> and a layout in which \<^verbatim>\<open>view\<close> can merge the first two axes
  (every contiguous tensor has one), \<^verbatim>\<open>to_ray_bundle()\<close> followed by
  \<^verbatim>\<open>to_camera_ray_bundle(h, w)\<close> succeeds and returns origins and directions equal to
  the original arrays, entry for entry (and so of shape \<open>h \<times> w \<times> 3\<close>). The camera
  indices and the camera index of the result are \<^verbatim>\<open>None\<close>.
\<close>

theorem camera_ray_bundle_round_trip:
  assumes "has_shape h w (cells (CameraRayBundle.origins c))"
      and "has_shape h w (cells (CameraRayBundle.directions c))"
      and "mergeable (CameraRayBundle.origins c)"
      and "mergeable (CameraRayBundle.directions c)"
  shows "and_then (to_ray_bundle c) (\<lambda>b. to_camera_ray_bundle b h w) =
           Inr \<lparr>CameraRayBundle.origins =
                  \<lparr>cells = cells (CameraRayBundle.origins c), layout = Split_view\<rparr>,
                CameraRayBundle.directions =
                  \<lparr>cells = cells (CameraRayBundle.directions c), layout = Split_view\<rparr>,
                CameraRayBundle.camera_indices = None,
                CameraRayBundle.camera_index = None\<rparr>"
  using assms
  by (simp add: to_camera_ray_bundle_def to_ray_bundle_def view_flat_def view_grid_def
        and_then_def new_CameraRayBundle_def chunk_concat length_concat_has_shape)

theorem camera_ray_bundle_round_trip_witness:
  "has_shape 2 2 ([[(0,0,0), (1,0,0)], [(0,1,0), (1,1,0)]] :: vec3 list list) \<and>
   has_shape 2 2 ([[(0,0,1), (0,0,2)], [(0,0,3), (0,0,4)]] :: vec3 list list) \<and>
   mergeable \<lparr>cells = [[(0,0,0), (1,0,0)], [(0,1,0), (1,1,0)]], layout = Strides 6 3 1\<rparr> \<and>
   mergeable \<lparr>cells = [[(0,0,1), (0,0,2)], [(0,0,3), (0,0,4)]], layout = Strides 12 6 2\<rparr> \<and>
   and_then
     (to_ray_bundle
        \<lparr>CameraRayBundle.origins =
           \<lparr>cells = [[(0,0,0), (1,0,0)], [(0,1,0), (1,1,0)]], layout = Strides 6 3 1\<rparr>,
         CameraRayBundle.directions =
           \<lparr>cells = [[(0,0,1), (0,0,2)], [(0,0,3), (0,0,4)]], layout = Strides 12 6 2\<rparr>,
         CameraRayBundle.camera_indices = Some [[9, 9], [9, 9]],
         CameraRayBundle.camera_index = Some 9\<rparr>)
     (\<lambda>b. to_camera_ray_bundle b 2 2) =
     Inr \<lparr>CameraRayBundle.origins =
            \<lparr>cells = [[(0,0,0), (1,0,0)], [(0,1,0), (1,1,0)]], layout = Split_view\<rparr>,
          CameraRayBundle.directions =
            \<lparr>cells = [[(0,0,1), (0,0,2)], [(0,0,3), (0,0,4)]], layout = Split_view\<rparr>,
          CameraRayBundle.camera_indices = None,
          CameraRayBundle.camera_index = None\<rparr>"
proof -
  let ?c = "\<lparr>CameraRayBundle.origins =
           \<lparr>cells = [[(0,0,0), (1,0,0)], [(0,1,0), (1,1,0)]], layout = Strides 6 3 1\<rparr>,
         CameraRayBundle.directions =
           \<lparr>cells = [[(0,0,1), (0,0,2)], [(0,0,3), (0,0,4)]], layout = Strides 12 6 2\<rparr>,
         CameraRayBundle.camera_indices = Some [[9, 9], [9, 9]],
         CameraRayBundle.camera_index = Some 9\<rparr>"
  have o: "has_shape 2 2 (cells (CameraRayBundle.origins ?c))" by (simp add: has_shape_def)
  have d: "has_shape 2 2 (cells (CameraRayBundle.directions ?c))" by (simp add: has_shape_def)
  have mo: "mergeable (CameraRayBundle.origins ?c)" by (simp add: mergeable_def)
  have md: "mergeable (CameraRayBundle.directions ?c)" by (simp add: mergeable_def)
  from camera_ray_bundle_round_trip [OF o d mo md] o d mo md show ?thesis by simp
qed

text \<open>
  C6 as stated, for every \<^verbatim>\<open>CameraRayBundle\<close> of shape \<open>h \<times> w \<times> 3\<close>, fails: on a
  \<open>2 \<times> 2\<close> crop of a wider image (strides \<open>9, 3, 1\<close>) \<^verbatim>\<open>view(-1, 3)\<close> raises
  \<^verbatim>\<open>RuntimeError\<close> and the round trip returns nothing.
\<close>

theorem round_trip_fails_on_cropped_grid:
  "has_shape 2 2 ([[(0,0,0), (1,0,0)], [(0,1,0), (1,1,0)]] :: vec3 list list) \<and>
   has_shape 2 2 ([[(0,0,1), (0,0,1)], [(0,0,1), (0,0,1)]] :: vec3 list list) \<and>
   and_then
     (to_ray_bundle
        \<lparr>CameraRayBundle.origins =
           \<lparr>cells = [[(0,0,0), (1,0,0)], [(0,1,0), (1,1,0)]], layout = Strides 9 3 1\<rparr>,
         CameraRayBundle.directions =
           \<lparr>cells = [[(0,0,1), (0,0,1)], [(0,0,1), (0,0,1)]], layout = Strides 9 3 1\<rparr>,
         CameraRayBundle.camera_indices = None,
         CameraRayBundle.camera_index = None\<rparr>)
     (\<lambda>b. to_camera_ray_bundle b 2 2) = Inl RuntimeError"
  by (simp add: has_shape_def to_ray_bundle_def view_flat_def mergeable_def and_then_def)


text \<open>
  C9, as the code has it. When \<^verbatim>\<open>view\<close> can merge the first two axes of origins and
  of directions, \<^verbatim>\<open>to_ray_bundle()\<close> returns a \<^verbatim>\<open>RayBundle\<close> in which only origins and
  directions are populated, each the rows of the grid one after the other (so
  \<open>h * w\<close> rays for a grid of shape \<open>h \<times> w\<close>); \<^verbatim>\<open>camera_indices\<close>, \<^verbatim>\<open>nears\<close>,
  \<^verbatim>\<open>fars\<close> and \<^verbatim>\<open>valid_mask\<close> are \<^verbatim>\<open>None\<close>, whatever the camera indices of the
  \<^verbatim>\<open>CameraRayBundle\<close> are. Otherwise it raises \<^verbatim>\<open>RuntimeError\<close>.
\<close>

theorem to_ray_bundle_drops_optional_fields:
  "(mergeable (CameraRayBundle.origins c) \<and> mergeable (CameraRayBundle.directions c) \<longrightarrow>
      to_ray_bundle c =
        Inr \<lparr>RayBundle.origins = concat (cells (CameraRayBundle.origins c)),
             RayBundle.directions = concat (cells (CameraRayBundle.directions c)),
             RayBundle.camera_indices = None, RayBundle.nears = None,
             RayBundle.fars = None, RayBundle.valid_mask = None\<rparr> \<and>
      (has_shape h w (cells (CameraRayBundle.origins c)) \<longrightarrow>
         length (concat (cells (CameraRayBundle.origins c))) = h * w)) \<and>
   (\<not> (mergeable (CameraRayBundle.origins c) \<and> mergeable (CameraRayBundle.directions c)) \<longrightarrow>
      to_ray_bundle c = Inl RuntimeError)"
  by (auto simp: to_ray_bundle_def view_flat_def and_then_def length_concat_has_shape)

theorem to_ray_bundle_drops_optional_fields_witness:
  "mergeable \<lparr>cells = [[(0, 0, 0), (1, 1, 1)]], layout = Strides 6 3 1\<rparr> \<and>
   mergeable \<lparr>cells = [[(1, 0, 0), (0, 1, 0)]], layout = Strides 6 3 1\<rparr> \<and>
   has_shape 1 2 ([[(0, 0, 0), (1, 1, 1)]] :: vec3 list list) \<and>
   to_ray_bundle
     \<lparr>CameraRayBundle.origins = \<lparr>cells = [[(0, 0, 0), (1, 1, 1)]], layout = Strides 6 3 1\<rparr>,
      CameraRayBundle.directions = \<lparr>cells = [[(1, 0, 0), (0, 1, 0)]], layout = Strides 6 3 1\<rparr>,
      CameraRayBundle.camera_indices = Some [[7, 7]],
      CameraRayBundle.camera_index = Some 7\<rparr> =
     Inr \<lparr>RayBundle.origins = [(0, 0, 0), (1, 1, 1)], RayBundle.directions = [(1, 0, 0), (0, 1, 0)],
          RayBundle.camera_indices = None, RayBundle.nears = None,
          RayBundle.fars = None, RayBundle.valid_mask = None\<rparr> \<and>
   \<not> mergeable \<lparr>cells = [[(0, 0, 0), (1, 1, 1)], [(2, 2, 2), (3, 3, 3)]], layout = Strides 9 3 1\<rparr> \<and>
   to_ray_bundle
     \<lparr>CameraRayBundle.origins =
        \<lparr>cells = [[(0, 0, 0), (1, 1, 1)], [(2, 2, 2), (3, 3, 3)]], layout = Strides 9 3 1\<rparr>,
      CameraRayBundle.directions =
        \<lparr>cells = [[(1, 0, 0), (0, 1, 0)], [(1, 0, 0), (0, 1, 0)]], layout = Strides 6 3 1\<rparr>,
      CameraRayBundle.camera_indices = None,
      CameraRayBundle.camera_index = None\<rparr> = Inl RuntimeError"
proof -
  let ?c = "\<lparr>CameraRayBundle.origins = \<lparr>cells = [[(0, 0, 0), (1, 1, 1)]], layout = Strides 6 3 1\<rparr>,
      CameraRayBundle.directions = \<lparr>cells = [[(1, 0, 0), (0, 1, 0)]], layout = Strides 6 3 1\<rparr>,
      CameraRayBundle.camera_indices = Some [[7, 7]],
      CameraRayBundle.camera_index = Some 7\<rparr>"
  let ?d = "\<lparr>CameraRayBundle.origins =
        \<lparr>cells = [[(0, 0, 0), (1, 1, 1)], [(2, 2, 2), (3, 3, 3)]], layout = Strides 9 3 1\<rparr>,
      CameraRayBundle.directions =
        \<lparr>cells = [[(1, 0, 0), (0, 1, 0)], [(1, 0, 0), (0, 1, 0)]], layout = Strides 6 3 1\<rparr>,
      CameraRayBundle.camera_indices = None,
      CameraRayBundle.camera_index = None\<rparr>"
  have m: "mergeable (CameraRayBundle.origins ?c)" "mergeable (CameraRayBundle.directions ?c)"
    by (simp_all add: mergeable_def)
  have h: "has_shape 1 2 (cells (CameraRayBundle.origins ?c))" by (simp add: has_shape_def)
  have n: "\<not> mergeable (CameraRayBundle.origins ?d)" by (simp add: mergeable_def)
  from to_ray_bundle_drops_optional_fields [of ?c 1 2]
       to_ray_bundle_drops_optional_fields [of ?d 2 2] m h n
  show ?thesis by simp
qed

text \<open>
  C9 as stated, for every \<^verbatim>\<open>CameraRayBundle\<close>, fails: on a bundle whose origins are a
  transposed \<open>3 \<times> 2\<close> image (shape \<open>2 \<times> 3 \<times> 3\<close>, strides \<open>3, 6, 1\<close>)
  \<^verbatim>\<open>to_ray_bundle()\<close> raises \<^verbatim>\<open>RuntimeError\<close> and returns no \<^verbatim>\<open>RayBundle\<close>.
\<close>

theorem to_ray_bundle_fails_on_transposed_grid:
  "to_ray_bundle
     \<lparr>CameraRayBundle.origins =
        \<lparr>cells = [[(0, 0, 0), (0, 1, 0), (0, 2, 0)], [(1, 0, 0), (1, 1, 0), (1, 2, 0)]],
         layout = Strides 3 6 1\<rparr>,
      CameraRayBundle.directions =
        \<lparr>cells = [[(0, 0, 1), (0, 0, 1), (0, 0, 1)], [(0, 0, 1), (0, 0, 1), (0, 0, 1)]],
         layout = Strides 9 3 1\<rparr>,
      CameraRayBundle.camera_indices = None,
      CameraRayBundle.camera_index = None\<rparr> = Inl RuntimeError"
  by (simp add: to_ray_bundle_def view_flat_def mergeable_def and_then_def)

subsection \<open>\<^verbatim>\<open>CameraRayBundle.set_camera_indices\<close>\<close>

text \<open>
  C7, as the code has it. For a \<^verbatim>\<open>CameraRayBundle\<close> whose origins have shape
  \<open>h \<times> w \<times> 3\<close> and an integer \<open>c\<close> with \<open>-2\<^sup>6\<^sup>3 \<le> c < 2\<^sup>6\<^sup>3\<close>, after
  \<^verbatim>\<open>set_camera_indices(c)\<close> the field \<^verbatim>\<open>camera_indices\<close> is the \<open>h \<times> w\<close> grid with
  every entry \<open>c\<close> and the field \<^verbatim>\<open>camera_index\<close> is \<open>c\<close>, and construction with a
  \<^verbatim>\<open>camera_index\<close> argument \<open>c\<close> gives the same two fields, whatever
  \<^verbatim>\<open>camera_indices\<close> argument came with it. Construction without a \<^verbatim>\<open>camera_index\<close>
  argument keeps the \<^verbatim>\<open>camera_indices\<close> it is given and leaves \<^verbatim>\<open>camera_index\<close> at
  \<^verbatim>\<open>None\<close>.
\<close>

theorem set_camera_indices_sync:
  assumes "has_shape h w (cells (CameraRayBundle.origins B))"
      and "- (2 ^ 63) \<le> c" and "c < 2 ^ 63"
  shows "set_camera_indices B c =
           Returned (B\<lparr>CameraRayBundle.camera_indices := Some (replicate h (replicate w c)),
                       CameraRayBundle.camera_index := Some c\<rparr>) \<and>
         new_CameraRayBundle (CameraRayBundle.origins B) ds grid (Some c) =
           Inr \<lparr>CameraRayBundle.origins = CameraRayBundle.origins B,
                CameraRayBundle.directions = ds,
                CameraRayBundle.camera_indices = Some (replicate h (replicate w c)),
                CameraRayBundle.camera_index = Some c\<rparr> \<and>
         new_CameraRayBundle (CameraRayBundle.origins B) ds grid None =
           Inr \<lparr>CameraRayBundle.origins = CameraRayBundle.origins B,
                CameraRayBundle.directions = ds,
                CameraRayBundle.camera_indices = grid,
                CameraRayBundle.camera_index = None\<rparr>"
  using assms
  by (simp add: set_camera_indices_def new_CameraRayBundle_def long_mul_one const_grid)

theorem set_camera_indices_sync_witness:
  "has_shape 2 3 ([[(0,0,0), (1,0,0), (2,0,0)], [(0,1,0), (1,1,0), (2,1,0)]] :: vec3 list list) \<and>
   set_camera_indices
     \<lparr>CameraRayBundle.origins =
        \<lparr>cells = [[(0,0,0), (1,0,0), (2,0,0)], [(0,1,0), (1,1,0), (2,1,0)]],
         layout = Strides 9 3 1\<rparr>,
      CameraRayBundle.directions =
        \<lparr>cells = [[(0,0,1), (0,0,1), (0,0,1)], [(0,0,1), (0,0,1), (0,0,1)]],
         layout = Strides 9 3 1\<rparr>,
      CameraRayBundle.camera_indices = None, CameraRayBundle.camera_index = None\<rparr> 5 =
     Returned
      \<lparr>CameraRayBundle.origins =
        \<lparr>cells = [[(0,0,0), (1,0,0), (2,0,0)], [(0,1,0), (1,1,0), (2,1,0)]],
         layout = Strides 9 3 1\<rparr>,
       CameraRayBundle.directions =
        \<lparr>cells = [[(0,0,1), (0,0,1), (0,0,1)], [(0,0,1), (0,0,1), (0,0,1)]],
         layout = Strides 9 3 1\<rparr>,
       CameraRayBundle.camera_indices = Some [[5, 5, 5], [5, 5, 5]],
       CameraRayBundle.camera_index = Some 5\<rparr> \<and>
   new_CameraRayBundle
      \<lparr>cells = [[(0,0,0), (1,0,0), (2,0,0)], [(0,1,0), (1,1,0), (2,1,0)]],
       layout = Strides 9 3 1\<rparr>
      \<lparr>cells = [[(0,0,1), (0,0,1), (0,0,1)], [(0,0,1), (0,0,1), (0,0,1)]],
       layout = Strides 9 3 1\<rparr>
      (Some [[1, 2, 3], [4, 5, 6]]) (Some (- 1)) =
     Inr
      \<lparr>CameraRayBundle.origins =
        \<lparr>cells = [[(0,0,0), (1,0,0), (2,0,0)], [(0,1,0), (1,1,0), (2,1,0)]],
         layout = Strides 9 3 1\<rparr>,
       CameraRayBundle.directions =
        \<lparr>cells = [[(0,0,1), (0,0,1), (0,0,1)], [(0,0,1), (0,0,1), (0,0,1)]],
         layout = Strides 9 3 1\<rparr>,
       CameraRayBundle.camera_indices = Some [[- 1, - 1, - 1], [- 1, - 1, - 1]],
       CameraRayBundle.camera_index = Some (- 1)\<rparr>"
proof -
  let ?os = "\<lparr>cells = [[(0,0,0), (1,0,0), (2,0,0)], [(0,1,0), (1,1,0), (2,1,0)]],
         layout = Strides 9 3 1\<rparr>"
  let ?ds = "\<lparr>cells = [[(0,0,1), (0,0,1), (0,0,1)], [(0,0,1), (0,0,1), (0,0,1)]],
         layout = Strides 9 3 1\<rparr>"
  let ?B = "\<lparr>CameraRayBundle.origins = ?os, CameraRayBundle.directions = ?ds,
      CameraRayBundle.camera_indices = None, CameraRayBundle.camera_index = None\<rparr>"
  have h: "has_shape 2 3 (cells (CameraRayBundle.origins ?B))" by (simp add: has_shape_def)
  have r: "replicate 2 (replicate 3 c) = [[c, c, c], [c, c, c]]" for c :: int
    by (simp add: numeral_2_eq_2 numeral_3_eq_3)
  have a: "- (2 ^ 63) \<le> (5::int)" "(5::int) < 2 ^ 63"
    and b: "- (2 ^ 63) \<le> (- 1::int)" "(- 1::int) < 2 ^ 63" by simp_all
  from set_camera_indices_sync [OF h a, of ?ds "Some [[1, 2, 3], [4, 5, 6]]"]
       set_camera_indices_sync [OF h b, of ?ds "Some [[1, 2, 3], [4, 5, 6]]"] h
  show ?thesis by (simp add: r)
qed

text \<open>
  C7 as stated fails on both counts. For \<open>c = 2\<^sup>6\<^sup>3\<close> the grid holds \<open>-2\<^sup>6\<^sup>3\<close> while the
  scalar is \<open>2\<^sup>6\<^sup>3\<close>. And the setter and construction with a \<^verbatim>\<open>camera_index\<close> are not
  the only ways camera identity is written: \<^verbatim>\<open>to_camera_ray_bundle\<close> constructs a
  bundle with a grid of camera indices and no \<^verbatim>\<open>camera_index\<close>.
\<close>

theorem camera_indices_out_of_sync:
  "set_camera_indices
     \<lparr>CameraRayBundle.origins = \<lparr>cells = [[(0,0,0), (1,0,0)]], layout = Strides 6 3 1\<rparr>,
      CameraRayBundle.directions = \<lparr>cells = [[(0,0,1), (0,0,1)]], layout = Strides 6 3 1\<rparr>,
      CameraRayBundle.camera_indices = None, CameraRayBundle.camera_index = None\<rparr>
     9223372036854775808 =
     Returned
      \<lparr>CameraRayBundle.origins = \<lparr>cells = [[(0,0,0), (1,0,0)]], layout = Strides 6 3 1\<rparr>,
       CameraRayBundle.directions = \<lparr>cells = [[(0,0,1), (0,0,1)]], layout = Strides 6 3 1\<rparr>,
       CameraRayBundle.camera_indices =
         Some [[- 9223372036854775808, - 9223372036854775808]],
       CameraRayBundle.camera_index = Some 9223372036854775808\<rparr> \<and>
   to_camera_ray_bundle
     \<lparr>RayBundle.origins = [(0,0,0), (1,0,0)], RayBundle.directions = [(0,0,1), (0,0,1)],
      RayBundle.camera_indices = Some [1, 2], RayBundle.nears = None,
      RayBundle.fars = None, RayBundle.valid_mask = None\<rparr> 1 2 =
     Inr
      \<lparr>CameraRayBundle.origins = \<lparr>cells = [[(0,0,0), (1,0,0)]], layout = Split_view\<rparr>,
       CameraRayBundle.directions = \<lparr>cells = [[(0,0,1), (0,0,1)]], layout = Split_view\<rparr>,
       CameraRayBundle.camera_indices = Some [[1, 2]],
       CameraRayBundle.camera_index = None\<rparr>"
  by (simp add: set_camera_indices_def long_mul_def wrap64_def to_camera_ray_bundle_def
        view_grid_def and_then_def new_CameraRayBundle_def numeral_2_eq_2)

text \<open>
  An integer outside \<open>-2\<^sup>6\<^sup>3 \<le> c < 2\<^sup>6\<^sup>4\<close> raises \<^verbatim>\<open>OverflowError\<close> after
  \<^verbatim>\<open>camera_index\<close> has been assigned.
\<close>

lemma set_camera_indices_overflow:
  "c < - (2 ^ 63) \<or> 2 ^ 64 \<le> c \<Longrightarrow>
   set_camera_indices B c = Raised OverflowError (B\<lparr>CameraRayBundle.camera_index := Some c\<rparr>)"
  by (simp add: set_camera_indices_def long_mul_def)


subsection \<open>\<^verbatim>\<open>RayBundle.get_masked_ray_bundle\<close>\<close>

text \<open>
  C5. For a \<^verbatim>\<open>RayBundle\<close> \<open>B\<close> that satisfies the data model's invariant and a
  boolean mask \<open>m\<close> with one entry per ray, \<^verbatim>\<open>get_masked_ray_bundle(m)\<close> returns a
  bundle in which origins, directions and every optional field present on \<open>B\<close> is the
  field of \<open>B\<close> restricted to the rows where \<open>m\<close> is true, and every optional field
  that is \<^verbatim>\<open>None\<close> on \<open>B\<close> is \<^verbatim>\<open>None\<close> on the result.
\<close>

theorem get_masked_ray_bundle_restricts:
  assumes "well_formed B" and "length m = len B"
  shows "get_masked_ray_bundle B m =
           Inr \<lparr>RayBundle.origins = nths (RayBundle.origins B) (rows_where m),
                RayBundle.directions = nths (RayBundle.directions B) (rows_where m),
                RayBundle.camera_indices =
                  map_option (\<lambda>v. nths v (rows_where m)) (RayBundle.camera_indices B),
                RayBundle.nears = map_option (\<lambda>v. nths v (rows_where m)) (RayBundle.nears B),
                RayBundle.fars = map_option (\<lambda>v. nths v (rows_where m)) (RayBundle.fars B),
                RayBundle.valid_mask =
                  map_option (\<lambda>v. nths v (rows_where m)) (RayBundle.valid_mask B)\<rparr>"
proof -
  from assms have o: "length m = length (RayBundle.origins B)"
    and d: "length m = length (RayBundle.directions B)"
    by (simp_all add: well_formed_def len_def)
  from assms have c: "case RayBundle.camera_indices B of None \<Rightarrow> True | Some v \<Rightarrow> length v = length m"
    and n: "case RayBundle.nears B of None \<Rightarrow> True | Some v \<Rightarrow> length v = length m"
    and f: "case RayBundle.fars B of None \<Rightarrow> True | Some v \<Rightarrow> length v = length m"
    and v: "case RayBundle.valid_mask B of None \<Rightarrow> True | Some v \<Rightarrow> length v = length m"
    by (auto simp: well_formed_def split: option.splits)
  show ?thesis
    by (simp add: get_masked_ray_bundle_def and_then_def masked_index_nths [OF o]
          masked_index_nths [OF d] masked_opt_nths [OF c] masked_opt_nths [OF n]
          masked_opt_nths [OF f] masked_opt_nths [OF v])
qed


theorem get_masked_ray_bundle_restricts_witness:
  "well_formed \<lparr>RayBundle.origins = [(0,0,0), (1,1,1), (2,2,2)],
      RayBundle.directions = [(1,0,0), (0,1,0), (0,0,1)],
      RayBundle.camera_indices = Some [4, 5, 6], RayBundle.nears = None,
      RayBundle.fars = Some [7, 8, 9], RayBundle.valid_mask = None\<rparr> \<and>
   get_masked_ray_bundle \<lparr>RayBundle.origins = [(0,0,0), (1,1,1), (2,2,2)],
      RayBundle.directions = [(1,0,0), (0,1,0), (0,0,1)],
      RayBundle.camera_indices = Some [4, 5, 6], RayBundle.nears = None,
      RayBundle.fars = Some [7, 8, 9], RayBundle.valid_mask = None\<rparr> [True, False, True] =
     Inr \<lparr>RayBundle.origins = [(0,0,0), (2,2,2)],
      RayBundle.directions = [(1,0,0), (0,0,1)],
      RayBundle.camera_indices = Some [4, 6], RayBundle.nears = None,
      RayBundle.fars = Some [7, 9], RayBundle.valid_mask = None\<rparr>"
proof -
  let ?B = "\<lparr>RayBundle.origins = [(0,0,0), (1,1,1), (2,2,2)],
      RayBundle.directions = [(1,0,0), (0,1,0), (0,0,1)],
      RayBundle.camera_indices = Some [4, 5, 6], RayBundle.nears = None,
      RayBundle.fars = Some [7, 8, 9], RayBundle.valid_mask = None\<rparr>"
  let ?m = "[True, False, True]"
  have w: "well_formed ?B" by (simp add: well_formed_def len_def)
  have l: "length ?m = len ?B" by (simp add: len_def)
  have n: "nths [a, b, c] (rows_where ?m) = [a, c]" for a b c :: 'a
    using masked_rows [of ?m "[a, b, c]"] by simp
  from get_masked_ray_bundle_restricts [OF w l] w show ?thesis by (simp add: n)
qed

subsection \<open>\<^verbatim>\<open>RayBundle.get_ray_samples\<close>\<close>

text \<open>
  C2. For a \<^verbatim>\<open>RayBundle\<close> with \<open>N\<close> rows of origins and of directions and \<open>ts\<close> of
  shape \<open>N \<times> S\<close>, \<^verbatim>\<open>get_ray_samples(ts)\<close> returns a \<^verbatim>\<open>RaySamples\<close> whose positions
  and directions have shape \<open>N \<times> S\<close> with
  \<open>positions[r,s] = origins[r] + ts[r,s] * directions[r]\<close>, coordinate by coordinate,
  and \<open>directions[r,s] = directions[r]\<close>, and whose \<^verbatim>\<open>valid_mask\<close> is the \<open>N \<times> S\<close>
  array of \<open>True\<close>. For \<open>ts = [0,1,2]\<close>, origin \<open>(0,0,0)\<close> and direction \<open>(1,0,0)\<close> the
  positions are \<open>(0,0,0), (1,0,0), (2,0,0)\<close>.
\<close>

theorem get_ray_samples_positions:
  fixes ts :: "real list list"
  assumes "length (RayBundle.origins B) = N" and "length (RayBundle.directions B) = N"
      and "has_shape N S ts"
  shows "\<exists>rs P D. get_ray_samples B ts = Inr rs \<and>
           RaySamples.positions rs = Some P \<and> has_shape N S P \<and>
           RaySamples.directions rs = Some D \<and> has_shape N S D \<and>
           RaySamples.valid_mask rs = Some (replicate N (replicate S True)) \<and>
           (\<forall>r < N. \<forall>s < S.
              P ! r ! s =
                (case (RayBundle.origins B ! r, RayBundle.directions B ! r) of
                   ((ox, oy, oz), (dx, dy, dz)) \<Rightarrow>
                     (ox + ts ! r ! s * dx, oy + ts ! r ! s * dy, oz + ts ! r ! s * dz)) \<and>
              D ! r ! s = RayBundle.directions B ! r)"
proof -
  from assms have lt: "length ts = N" by (simp add: has_shape_def)
  with assms have lo: "length (RayBundle.origins B) = length ts"
    and ld: "length (RayBundle.directions B) = length ts" by simp_all
  let ?P = "map (\<lambda>(orig, prow). map (\<lambda>p. vadd orig p) prow)
       (zip (RayBundle.origins B)
          (map (\<lambda>(trow, d). map (\<lambda>t. vscale t d) trow) (zip ts (RayBundle.directions B))))"
  let ?D = "map (replicate S) (RayBundle.directions B)"
  have row: "?P ! r = map (\<lambda>t. vadd (RayBundle.origins B ! r) (vscale t (RayBundle.directions B ! r))) (ts ! r)"
    if "r < N" for r
    using that lt nth_positions [OF lo ld] by blast
  have shP: "has_shape N S ?P"
  proof (rule has_shapeI)
    show "length ?P = N" using lo ld lt by simp
    show "length (?P ! r) = S" if "r < N" for r
      using that has_shape_nth [OF assms(3)] by (simp only: row) simp
  qed
  have shD: "has_shape N S ?D"
    using assms(2) by (auto simp: has_shape_def)
  obtain rs where rs: "get_ray_samples B ts = Inr rs"
    and p: "RaySamples.positions rs = Some ?P"
    and d: "RaySamples.directions rs = Some ?D"
    and v: "RaySamples.valid_mask rs = Some (replicate N (replicate S True))"
    using lo ld first_row_length [OF shP assms(2)] const_grid [OF assms(3), of True]
    by (simp add: get_ray_samples_def broadcast_same and_then_def Let_def)
  have pt: "?P ! r ! s =
                (case (RayBundle.origins B ! r, RayBundle.directions B ! r) of
                   ((ox, oy, oz), (dx, dy, dz)) \<Rightarrow>
                     (ox + ts ! r ! s * dx, oy + ts ! r ! s * dy, oz + ts ! r ! s * dz)) \<and>
            ?D ! r ! s = RayBundle.directions B ! r" if "r < N" "s < S" for r s
    using that has_shape_nth [OF assms(3)] assms(2)
    by (simp only: row) (simp add: vadd_vscale)
  from rs p d v shP shD pt show ?thesis by blast
qed



theorem get_ray_samples_positions_witness:
  "has_shape 1 3 ([[0, 1, 2]] :: real list list) \<and>
   get_ray_samples
     \<lparr>RayBundle.origins = [(0, 0, 0)], RayBundle.directions = [(1, 0, 0)],
      RayBundle.camera_indices = None, RayBundle.nears = None,
      RayBundle.fars = None, RayBundle.valid_mask = None\<rparr> [[0, 1, 2]] =
     Inr \<lparr>RaySamples.positions = Some [[(0, 0, 0), (1, 0, 0), (2, 0, 0)]],
          RaySamples.directions = Some [[(1, 0, 0), (1, 0, 0), (1, 0, 0)]],
          RaySamples.camera_indices = None,
          RaySamples.valid_mask = Some [[True, True, True]],
          RaySamples.ts = Some [[0, 1, 2]],
          RaySamples.deltas = Some (of_rows [[1, 1, 1]])\<rparr> \<and>
   has_shape 2 3 ([[0, 1, 2], [1, 3, 5]] :: real list list) \<and>
   (\<exists>rs. get_ray_samples
       \<lparr>RayBundle.origins = [(1, 2, 3), (0, - 1, 4)],
        RayBundle.directions = [(2, - 1, 3), (1, 1, 1)],
        RayBundle.camera_indices = Some [7, 8], RayBundle.nears = None,
        RayBundle.fars = None, RayBundle.valid_mask = None\<rparr> [[0, 1, 2], [1, 3, 5]] = Inr rs \<and>
      RaySamples.positions rs =
        Some [[(1, 2, 3), (3, 1, 6), (5, 0, 9)], [(1, 0, 5), (3, 2, 7), (5, 4, 9)]] \<and>
      RaySamples.directions rs =
        Some [[(2, - 1, 3), (2, - 1, 3), (2, - 1, 3)], [(1, 1, 1), (1, 1, 1), (1, 1, 1)]] \<and>
      RaySamples.valid_mask rs = Some [[True, True, True], [True, True, True]])"
proof -
  let ?A = "\<lparr>RayBundle.origins = [(0, 0, 0)], RayBundle.directions = [(1, 0, 0)],
      RayBundle.camera_indices = None, RayBundle.nears = None,
      RayBundle.fars = None, RayBundle.valid_mask = None\<rparr>"
  let ?B = "\<lparr>RayBundle.origins = [(1, 2, 3), (0, - 1, 4)],
        RayBundle.directions = [(2, - 1, 3), (1, 1, 1)],
        RayBundle.camera_indices = Some [7, 8], RayBundle.nears = None,
        RayBundle.fars = None, RayBundle.valid_mask = None\<rparr>"
  have ao: "length (RayBundle.origins ?A) = 1" and ad: "length (RayBundle.directions ?A) = 1"
    by simp_all
  have at: "has_shape 1 3 ([[0, 1, 2]] :: real list list)" by (simp add: has_shape_def)
  have bo: "length (RayBundle.origins ?B) = 2" and bd: "length (RayBundle.directions ?B) = 2"
    by simp_all
  have bt: "has_shape 2 3 ([[0, 1, 2], [1, 3, 5]] :: real list list)" by (simp add: has_shape_def)
  from get_ray_samples_positions [OF ao ad at] get_ray_samples_positions [OF bo bd bt] at bt
  show ?thesis
    by (simp add: get_ray_samples_def broadcast_def and_then_def of_rows_def)
qed


text \<open>
  C3. With \<open>S \<ge> 2\<close> samples per ray, the deltas of \<^verbatim>\<open>get_ray_samples(ts)\<close> have shape
  \<open>N \<times> S\<close>, \<open>deltas[r,s] = (ts[r,s+1] - ts[r,s]) * ||directions[r]||\<close> for every \<open>s\<close>
  before the last, where \<open>||(dx, dy, dz)|| = sqrt (dx\<^sup>2 + dy\<^sup>2 + dz\<^sup>2)\<close>, and the last
  delta is \<open>(ts[r,S-1] - ts[r,S-2]) * ||directions[r]||\<close>, equal to the delta before it.
\<close>

theorem get_ray_samples_deltas:
  fixes ts :: "real list list"
  assumes "length (RayBundle.origins B) = N" and "length (RayBundle.directions B) = N"
      and "has_shape N S ts" and "2 \<le> S"
  shows "\<exists>rs Dl. get_ray_samples B ts = Inr rs \<and>
           RaySamples.deltas rs = Some (of_rows Dl) \<and> has_shape N S Dl \<and>
           (\<forall>r < N.
              (\<forall>s. s + 1 < S \<longrightarrow>
                 Dl ! r ! s =
                   (ts ! r ! (s + 1) - ts ! r ! s) *
                   (case RayBundle.directions B ! r of
                      (dx, dy, dz) \<Rightarrow> sqrt (dx\<^sup>2 + dy\<^sup>2 + dz\<^sup>2))) \<and>
              Dl ! r ! (S - 1) =
                 (ts ! r ! (S - 1) - ts ! r ! (S - 2)) *
                 (case RayBundle.directions B ! r of
                    (dx, dy, dz) \<Rightarrow> sqrt (dx\<^sup>2 + dy\<^sup>2 + dz\<^sup>2)) \<and>
              Dl ! r ! (S - 1) = Dl ! r ! (S - 2))"
  using get_ray_samples_deltas_norm3 [OF assms] by (simp only: norm3_euclid)

theorem get_ray_samples_deltas_witness:
  "has_shape 2 3 ([[0, 1, 3], [0, 2, 3]] :: real list list) \<and>
   (\<exists>rs. get_ray_samples
     \<lparr>RayBundle.origins = [(1, 1, 1), (0, 0, 0)],
      RayBundle.directions = [(1, 2, 2), (2, 3, 6)],
      RayBundle.camera_indices = None, RayBundle.nears = None,
      RayBundle.fars = None, RayBundle.valid_mask = None\<rparr> [[0, 1, 3], [0, 2, 3]] = Inr rs \<and>
     RaySamples.deltas rs = Some (of_rows [[3, 6, 6], [14, 7, 7]]))"
proof -
  let ?B = "\<lparr>RayBundle.origins = [(1, 1, 1), (0, 0, 0)],
      RayBundle.directions = [(1, 2, 2), (2, 3, 6)],
      RayBundle.camera_indices = None, RayBundle.nears = None,
      RayBundle.fars = None, RayBundle.valid_mask = None\<rparr>"
  have o: "length (RayBundle.origins ?B) = 2" and d: "length (RayBundle.directions ?B) = 2"
    by simp_all
  have t: "has_shape 2 3 ([[0, 1, 3], [0, 2, 3]] :: real list list)" by (simp add: has_shape_def)
  have s: "(2::nat) \<le> 3" by simp
  have r3: "sqrt 9 = 3" by (rule real_sqrt_unique) simp_all
  have r7: "sqrt 49 = 7" by (rule real_sqrt_unique) simp_all
  from get_ray_samples_deltas [OF o d t s] t show ?thesis
    by (simp add: get_ray_samples_def broadcast_def and_then_def of_rows_def r3 r7)
qed


subsection \<open>\<^verbatim>\<open>RayBundle.sample\<close>\<close>

text \<open>
  When \<^verbatim>\<open>camera_indices\<close> is present on a bundle that satisfies the data model's
  invariant, \<^verbatim>\<open>sample(k)\<close> returns the rows of origins, directions and camera
  indices at the \<open>k\<close> pairwise distinct indices the random source drew; \<^verbatim>\<open>nears\<close>,
  \<^verbatim>\<open>fars\<close> and \<^verbatim>\<open>valid_mask\<close> are dropped.
\<close>

lemma sample_with_camera_indices:
  assumes "well_formed B" and "RayBundle.camera_indices B = Some ci"
      and "is_draw (len B) k draw"
  shows "sample B (int k) draw =
           Inr \<lparr>RayBundle.origins = map (\<lambda>i. RayBundle.origins B ! i) draw,
                RayBundle.directions = map (\<lambda>i. RayBundle.directions B ! i) draw,
                RayBundle.camera_indices = Some (map (\<lambda>i. ci ! i) draw),
                RayBundle.nears = None, RayBundle.fars = None,
                RayBundle.valid_mask = None\<rparr>"
    and "length draw = k" and "distinct draw" and "\<forall>i \<in> set draw. i < len B"
proof -
  from assms(3) show "length draw = k" "distinct draw" "\<forall>i \<in> set draw. i < len B"
    by (simp_all add: is_draw_def)
  from assms(1,2) have ld: "length (RayBundle.directions B) = len B"
    and lc: "length ci = len B"
    by (simp_all add: well_formed_def)
  have lo: "length (RayBundle.origins B) = len B" by (simp add: len_def)
  from assms(3) have r: "\<forall>i \<in> set draw. i < len B" by (simp add: is_draw_def)
  from is_draw_le [OF assms(3)] have k: "int k \<le> int (len B)" by simp
  show "sample B (int k) draw =
           Inr \<lparr>RayBundle.origins = map (\<lambda>i. RayBundle.origins B ! i) draw,
                RayBundle.directions = map (\<lambda>i. RayBundle.directions B ! i) draw,
                RayBundle.camera_indices = Some (map (\<lambda>i. ci ! i) draw),
                RayBundle.nears = None, RayBundle.fars = None,
                RayBundle.valid_mask = None\<rparr>"
    using k r by (simp add: sample_def random_sample_def index_rows_def and_then_def
        assms(2) ld lc lo)
qed

text \<open>
  C4. The claim is that \<^verbatim>\<open>sample(k)\<close> returns \<open>k\<close> rows for every \<^verbatim>\<open>RayBundle\<close>
  and every \<open>k \<le> N\<close>. On a bundle of two rays whose optional \<^verbatim>\<open>camera_indices\<close> is
  \<^verbatim>\<open>None\<close>, \<^verbatim>\<open>sample(2)\<close> with the draw \<open>[1, 0]\<close> raises \<^verbatim>\<open>TypeError\<close> at
  \<^verbatim>\<open>self.camera_indices[indices]\<close> instead.
\<close>

theorem sample_fails_without_camera_indices:
  "sample \<lparr>RayBundle.origins = [(0, 0, 0), (5, 5, 5)],
      RayBundle.directions = [(1, 0, 0), (0, 1, 0)],
      RayBundle.camera_indices = None, RayBundle.nears = None,
      RayBundle.fars = None, RayBundle.valid_mask = None\<rparr> 2 [1, 0] = Inl TypeError"
  by (simp add: sample_def len_def random_sample_def index_rows_def and_then_def)

text \<open>
  The bundle above satisfies the data model's invariant and \<open>[1, 0]\<close> is a draw that
  \<^verbatim>\<open>random.sample(range(2), 2)\<close> can return.
\<close>

lemma sample_failing_input_admissible:
  "well_formed \<lparr>RayBundle.origins = [(0, 0, 0), (5, 5, 5)],
      RayBundle.directions = [(1, 0, 0), (0, 1, 0)],
      RayBundle.camera_indices = None, RayBundle.nears = None,
      RayBundle.fars = None, RayBundle.valid_mask = None\<rparr> \<and>
   is_draw 2 2 [1, 0]"
  by (simp add: well_formed_def is_draw_def len_def)

text \<open>
  C8. For a \<^verbatim>\<open>RayBundle\<close> with \<open>N\<close> rays and \<open>n > N\<close>, \<^verbatim>\<open>sample(n)\<close> fails at the
  assertion \<^verbatim>\<open>num_rays <= len(self)\<close> and returns no \<^verbatim>\<open>RayBundle\<close>, whatever the
  random source would draw.
\<close>

theorem sample_too_many:
  "int (len B) < num_rays \<Longrightarrow> sample B num_rays draw = Inl AssertionError"
  by (simp add: sample_def)

theorem sample_too_many_witness:
  "int (len \<lparr>RayBundle.origins = [(0,0,0)], RayBundle.directions = [(1,0,0)],
      RayBundle.camera_indices = Some [4], RayBundle.nears = None,
      RayBundle.fars = None, RayBundle.valid_mask = None\<rparr>) < 2 \<and>
   sample \<lparr>RayBundle.origins = [(0,0,0)], RayBundle.directions = [(1,0,0)],
      RayBundle.camera_indices = Some [4], RayBundle.nears = None,
      RayBundle.fars = None, RayBundle.valid_mask = None\<rparr> 2 [0, 1] = Inl AssertionError"
proof -
  let ?B = "\<lparr>RayBundle.origins = [(0,0,0)], RayBundle.directions = [(1,0,0)],
      RayBundle.camera_indices = Some [4], RayBundle.nears = None,
      RayBundle.fars = None, RayBundle.valid_mask = None\<rparr>"
  have h: "int (len ?B) < 2" by (simp add: len_def)
  from sample_too_many [OF h] h show ?thesis by simp
qed

text \<open>
  C10. On a \<^verbatim>\<open>RayBundle\<close> whose \<^verbatim>\<open>camera_indices\<close> is \<^verbatim>\<open>None\<close>, \<^verbatim>\<open>sample\<close> never
  returns a bundle. When \<open>0 \<le> num_rays \<le> N\<close>, directions has as many rows as origins
  and the random source keeps its contract, the error is the \<^verbatim>\<open>TypeError\<close> of
  subscripting \<^verbatim>\<open>None\<close> in \<^verbatim>\<open>self.camera_indices[indices]\<close>.
\<close>

theorem sample_absent_camera_indices:
  assumes "RayBundle.camera_indices B = None"
  shows "(\<exists>e. sample B num_rays draw = Inl e) \<and>
         (0 \<le> num_rays \<and> num_rays \<le> int (len B) \<and>
          length (RayBundle.directions B) = len B \<and> is_draw (len B) (nat num_rays) draw
            \<longrightarrow> sample B num_rays draw = Inl TypeError)"
  using assms
  by (auto simp: sample_def and_then_def random_sample_def index_rows_def is_draw_def len_def
           split: sum.splits)

theorem sample_absent_camera_indices_witness:
  "RayBundle.camera_indices \<lparr>RayBundle.origins = [(0,0,0), (5,5,5)],
      RayBundle.directions = [(1,0,0), (0,1,0)],
      RayBundle.camera_indices = None, RayBundle.nears = None,
      RayBundle.fars = None, RayBundle.valid_mask = None\<rparr> = None \<and>
   is_draw 2 1 [1] \<and>
   sample \<lparr>RayBundle.origins = [(0,0,0), (5,5,5)],
      RayBundle.directions = [(1,0,0), (0,1,0)],
      RayBundle.camera_indices = None, RayBundle.nears = None,
      RayBundle.fars = None, RayBundle.valid_mask = None\<rparr> 1 [1] = Inl TypeError"
proof -
  let ?B = "\<lparr>RayBundle.origins = [(0,0,0), (5,5,5)],
      RayBundle.directions = [(1,0,0), (0,1,0)],
      RayBundle.camera_indices = None, RayBundle.nears = None,
      RayBundle.fars = None, RayBundle.valid_mask = None\<rparr>"
  have a: "RayBundle.camera_indices ?B = None" by simp
  have d: "is_draw 2 1 [1]" by (simp add: is_draw_def)
  have l: "len ?B = 2" by (simp add: len_def)
  from sample_absent_camera_indices [OF a, of 1 "[1]"] d l a show ?thesis by simp
qed

end
